theory Spec2Isabelle
  imports Complex_Main
begin

section \<open>Vectors\<close>

text \<open>
  Points and offsets are triples of reals (mathutils.Vector); floating point is
  idealised to real arithmetic throughout. BLENDER_EPS is the tolerance constant of
  blender.py.
\<close>

type_synonym vec3 = "real \<times> real \<times> real"
type_synonym quat = "real \<times> real \<times> real \<times> real"

definition BLENDER_EPS :: real where
  "BLENDER_EPS = 1 / 100000"

definition vx :: "vec3 \<Rightarrow> real" where
  "vx v = fst v"

definition vy :: "vec3 \<Rightarrow> real" where
  "vy v = fst (snd v)"

definition vz :: "vec3 \<Rightarrow> real" where
  "vz v = snd (snd v)"

definition vadd :: "vec3 \<Rightarrow> vec3 \<Rightarrow> vec3" where
  "vadd a b = (vx a + vx b, vy a + vy b, vz a + vz b)"

definition vsub :: "vec3 \<Rightarrow> vec3 \<Rightarrow> vec3" where
  "vsub a b = (vx a - vx b, vy a - vy b, vz a - vz b)"

definition vmul :: "vec3 \<Rightarrow> vec3 \<Rightarrow> vec3" where
  "vmul a b = (vx a * vx b, vy a * vy b, vz a * vz b)"

definition vsmul :: "real \<Rightarrow> vec3 \<Rightarrow> vec3" where
  "vsmul s a = (s * vx a, s * vy a, s * vz a)"

definition vabs :: "vec3 \<Rightarrow> vec3" where
  "vabs a = (\<bar>vx a\<bar>, \<bar>vy a\<bar>, \<bar>vz a\<bar>)"

definition vlength :: "vec3 \<Rightarrow> real" where
  "vlength a = sqrt (vx a * vx a + vy a * vy a + vz a * vz a)"

definition max3 :: "vec3 \<Rightarrow> real" where
  "max3 a = max (vx a) (max (vy a) (vz a))"

definition hypot :: "real \<Rightarrow> real \<Rightarrow> real" where
  "hypot a b = sqrt (a * a + b * b)"

section \<open>Meshes and the Mesh Engine\<close>

text \<open>
  A mesh is what blender_object.data exposes: vertex coordinates (v.co), edges as pairs
  of vertex indices (edge.vertices), polygons as index lists, and the selection flags
  that the edit operators read.
\<close>

datatype select_mode = VERT | EDGE | FACE

record mesh =
  vertices :: "vec3 list"
  edges :: "(nat \<times> nat) list"
  polygons :: "nat list list"
  vertex_select :: "bool list"
  edge_select :: "bool list"
  tool_select_mode :: select_mode

datatype rot_mode = XYZ | QUATERNION

datatype offset_type = OFFSET | WIDTH | DEPTH | PERCENT | ABSOLUTE

datatype affect = VERTICES | EDGES

datatype boolean_operation = INTERSECT | UNION | DIFFERENCE

datatype select_action = SELECT | DESELECT

text \<open>
  Settings written on a freshly added Bevel modifier before it is applied; a field the
  source does not write is None (the engine's default).
\<close>

record bevel_modifier =
  bm_offset_type :: "offset_type option"
  bm_width :: "real option"
  bm_width_pct :: "real option"
  bm_segments :: "nat option"

text \<open>Keyword arguments of bpy.ops.mesh.bevel; an argument not passed is None.\<close>

record bevel_args =
  ba_affect :: "affect option"
  ba_offset_type :: "offset_type option"
  ba_offset :: "real option"
  ba_offset_pct :: "real option"
  ba_segments :: "nat option"
  ba_clamp_overlap :: "bool option"

text \<open>
  The Mesh Engine (bpy) is an external collaborator. Its geometry operators are taken
  as parameters: every theorem below that mentions an engine \<open>E\<close> holds for
  whatever these functions compute. Mesh operators act on the mesh data only.
\<close>

record engine =
  eng_ico_sphere :: "nat \<Rightarrow> real \<Rightarrow> mesh"
  eng_cube :: "real \<Rightarrow> mesh"
  eng_cylinder :: "nat \<Rightarrow> real \<Rightarrow> real \<Rightarrow> mesh"
  eng_circle :: "nat \<Rightarrow> real \<Rightarrow> mesh"
  eng_modifier_bevel :: "bevel_modifier \<Rightarrow> mesh \<Rightarrow> mesh"
  eng_modifier_boolean :: "boolean_operation \<Rightarrow> mesh \<Rightarrow> mesh \<Rightarrow> mesh"
  eng_mesh_bevel :: "bevel_args \<Rightarrow> mesh \<Rightarrow> mesh"
  eng_extrude_region_move :: "vec3 \<Rightarrow> mesh \<Rightarrow> mesh"
  eng_translate :: "vec3 \<Rightarrow> mesh \<Rightarrow> mesh"
  eng_resize :: "vec3 \<Rightarrow> mesh \<Rightarrow> mesh"
  eng_remove_doubles :: "mesh \<Rightarrow> mesh"
  eng_rotation :: "rot_mode \<Rightarrow> vec3 \<Rightarrow> quat \<Rightarrow> vec3 \<Rightarrow> vec3"
  eng_rotmode_change :: "rot_mode \<Rightarrow> rot_mode \<Rightarrow> vec3 \<times> quat \<Rightarrow> vec3 \<times> quat"

text \<open>
  The one law of the engine that the geometric statements rely on: the identity
  rotation (zero Euler angles, unit quaternion) moves no point.
\<close>

definition engine_ok :: "engine \<Rightarrow> bool" where
  "engine_ok E = (\<forall>m v. eng_rotation E m (0, 0, 0) (1, 0, 0, 0) v = v)"

section \<open>Requests to the engine\<close>

text \<open>
  Every attribute the source writes on the engine's object and every operator it calls
  is recorded, in order, in the object's \<open>calls\<close>: a claim about what the code asks the
  engine to do is a statement about this list.
\<close>

datatype call =
    Primitive_ico_sphere_add nat real
  | Primitive_cube_add real
  | Primitive_cylinder_add nat real real
  | Primitive_circle_add nat real
  | Set_location vec3
  | Set_rotation_mode rot_mode
  | Set_rotation_euler vec3
  | Set_rotation_quaternion quat
  | Set_scale vec3
  | Transform_apply
  | Modifier_bevel bevel_modifier
  | Modifier_boolean boolean_operation mesh
  | Mesh_select_mode select_mode
  | Mesh_select_all select_action
  | Set_vertex_select "bool list"
  | Set_edge_select "bool list"
  | Mesh_bevel bevel_args
  | Mesh_extrude_region_move vec3
  | Mesh_translate vec3
  | Mesh_resize vec3
  | Mesh_remove_doubles
  | Object_duplicate

record blender_object =
  data :: mesh
  bo_location :: vec3
  bo_rotation_mode :: rot_mode
  bo_rotation_euler :: vec3
  bo_rotation_quaternion :: quat
  bo_scale :: vec3
  calls :: "call list"

datatype py_error = ValueError | ZeroDivisionError | IndexError | NonFinite

definition bind_py :: "py_error + 'a \<Rightarrow> ('a \<Rightarrow> py_error + 'b) \<Rightarrow> py_error + 'b" where
  "bind_py r f = (case r of Inl e \<Rightarrow> Inl e | Inr x \<Rightarrow> f x)"

definition py_div :: "real \<Rightarrow> real \<Rightarrow> py_error + real" where
  "py_div a b = (if b = 0 then Inl ZeroDivisionError else Inr (a / b))"

text \<open>
  Division by a numpy float (the result of np.hypot): a zero divisor raises nothing but
  gives inf or nan, which the real-number model cannot hold; the model stops there
  with NonFinite.
\<close>

definition np_div :: "real \<Rightarrow> real \<Rightarrow> py_error + real" where
  "np_div a b = (if b = 0 then Inl NonFinite else Inr (a / b))"

definition request :: "call \<Rightarrow> blender_object \<Rightarrow> blender_object" where
  "request c b = b\<lparr>calls := calls b @ [c]\<rparr>"

definition on_mesh :: "(mesh \<Rightarrow> mesh) \<Rightarrow> blender_object \<Rightarrow> blender_object" where
  "on_mesh f b = b\<lparr>data := f (data b)\<rparr>"

text \<open>
  A primitive is added at the origin of a new scene with no rotation and unit scale,
  in the engine's default rotation mode XYZ.
\<close>

definition new_object :: "call \<Rightarrow> mesh \<Rightarrow> blender_object" where
  "new_object c m =
     \<lparr>data = m, bo_location = (0, 0, 0), bo_rotation_mode = XYZ,
      bo_rotation_euler = (0, 0, 0), bo_rotation_quaternion = (1, 0, 0, 0),
      bo_scale = (1, 1, 1), calls = [c]\<rparr>"

definition identity_transform :: "blender_object \<Rightarrow> bool" where
  "identity_transform b =
     (bo_location b = (0, 0, 0) \<and> bo_rotation_euler b = (0, 0, 0) \<and>
      bo_rotation_quaternion b = (1, 0, 0, 0) \<and> bo_scale b = (1, 1, 1))"

section \<open>BlenderObjectReference: transforms\<close>

definition transform_point :: "engine \<Rightarrow> blender_object \<Rightarrow> vec3 \<Rightarrow> vec3" where
  "transform_point E b v =
     vadd (bo_location b)
       (eng_rotation E (bo_rotation_mode b) (bo_rotation_euler b) (bo_rotation_quaternion b)
          (vmul (bo_scale b) v))"

text \<open>
  Modelled from the spec: bpy.ops.object.transform_apply belongs to the Mesh Engine,
  which is not part of the repository. Section 6 of the spec: transforms are "always
  baked into vertex data (never left as a pending local transform)". The operator maps
  every vertex through the object's location, rotation and scale and resets the three
  to the identity; the rotation mode stays.
\<close>

definition transform_apply :: "engine \<Rightarrow> blender_object \<Rightarrow> blender_object" where
  "transform_apply E b =
     request Transform_apply
       (b\<lparr>data := (data b)\<lparr>vertices := map (transform_point E b) (vertices (data b))\<rparr>,
          bo_location := (0, 0, 0),
          bo_rotation_euler := (0, 0, 0),
          bo_rotation_quaternion := (1, 0, 0, 0),
          bo_scale := (1, 1, 1)\<rparr>)"

definition apply_all_transforms :: "engine \<Rightarrow> blender_object \<Rightarrow> blender_object" where
  "apply_all_transforms E b = transform_apply E b"

definition translate :: "engine \<Rightarrow> vec3 \<Rightarrow> blender_object \<Rightarrow> blender_object" where
  "translate E transation_vector b =
     apply_all_transforms E
       (request (Set_location transation_vector) (b\<lparr>bo_location := transation_vector\<rparr>))"

text \<open>
  Writing rotation_mode makes the engine convert the stored rotation to the new mode's
  representation (nothing is converted when the mode does not change).
\<close>

definition set_rotation_mode :: "engine \<Rightarrow> rot_mode \<Rightarrow> blender_object \<Rightarrow> blender_object" where
  "set_rotation_mode E m b =
     request (Set_rotation_mode m)
       (if m = bo_rotation_mode b then b
        else b\<lparr>bo_rotation_mode := m,
               bo_rotation_euler :=
                 fst (eng_rotmode_change E (bo_rotation_mode b) m
                        (bo_rotation_euler b, bo_rotation_quaternion b)),
               bo_rotation_quaternion :=
                 snd (eng_rotmode_change E (bo_rotation_mode b) m
                        (bo_rotation_euler b, bo_rotation_quaternion b))\<rparr>)"

definition rotate ::
  "engine \<Rightarrow> vec3 option \<Rightarrow> quat option \<Rightarrow> blender_object \<Rightarrow> blender_object" where
  "rotate E euler_angles quaternion b =
     (let rotation_mode_init = bo_rotation_mode b;
          b1 = (case euler_angles of
                  Some e \<Rightarrow>
                    request (Set_rotation_euler e)
                      ((set_rotation_mode E XYZ b)\<lparr>bo_rotation_euler := e\<rparr>)
                | None \<Rightarrow>
                    (case quaternion of
                       Some q \<Rightarrow>
                         request (Set_rotation_quaternion q)
                           ((set_rotation_mode E QUATERNION b)\<lparr>bo_rotation_quaternion := q\<rparr>)
                     | None \<Rightarrow> b))
      in apply_all_transforms E (set_rotation_mode E rotation_mode_init b1))"

text \<open>The argument of scale: a float or int is broadcast, anything else is a triple.\<close>

datatype scale_arg = Scalar real | Triple vec3

definition scale :: "engine \<Rightarrow> scale_arg \<Rightarrow> blender_object \<Rightarrow> blender_object" where
  "scale E scale_vector b =
     (let sv = (case scale_vector of Scalar s \<Rightarrow> (s, s, s) | Triple t \<Rightarrow> t)
      in apply_all_transforms E (request (Set_scale sv) (b\<lparr>bo_scale := sv\<rparr>)))"

section \<open>BlenderObjectReference: measurements\<close>

text \<open>
  The engine's bound box is the axis-aligned box of the mesh's vertices in the local
  frame; corner 0 is the minimum corner. What the engine reports for a mesh without
  vertices is not modelled: every statement about the box assumes a vertex.
  The engine's dimensions are the box's extents times the absolute object scale.
\<close>

definition bound_min :: "blender_object \<Rightarrow> vec3" where
  "bound_min b =
     (Min (vx ` set (vertices (data b))), Min (vy ` set (vertices (data b))),
      Min (vz ` set (vertices (data b))))"

definition bound_max :: "blender_object \<Rightarrow> vec3" where
  "bound_max b =
     (Max (vx ` set (vertices (data b))), Max (vy ` set (vertices (data b))),
      Max (vz ` set (vertices (data b))))"

definition bounding_box :: "blender_object \<Rightarrow> vec3 list" where
  "bounding_box b =
     (let lo = bound_min b; hi = bound_max b in
      [(vx lo, vy lo, vz lo), (vx lo, vy lo, vz hi), (vx lo, vy hi, vz hi),
       (vx lo, vy hi, vz lo), (vx hi, vy lo, vz lo), (vx hi, vy lo, vz hi),
       (vx hi, vy hi, vz hi), (vx hi, vy hi, vz lo)])"

definition dimensions :: "blender_object \<Rightarrow> vec3" where
  "dimensions b = vmul (vabs (bo_scale b)) (vsub (bound_max b) (bound_min b))"

definition location :: "blender_object \<Rightarrow> vec3" where
  "location b = vadd (bounding_box b ! 0) (vsmul (1 / 2) (dimensions b))"

definition enclosing_sphere_diameter :: "blender_object \<Rightarrow> py_error + real" where
  "enclosing_sphere_diameter b =
     (let distances = map (\<lambda>v. vlength (vsub v (location b))) (vertices (data b))
      in if distances = [] then Inl ValueError else Inr (2 * Max (set distances)))"

section \<open>BlenderObjectReference: selection and modifiers\<close>

text \<open>
  The context manager \<open>selected\<close> makes the object active in the requested mode and
  restores the previous selection afterwards; the model keeps no global selection
  state: every operator acts on the object the source has made active.
\<close>

definition mesh_select_all :: "select_action \<Rightarrow> blender_object \<Rightarrow> blender_object" where
  "mesh_select_all action b =
     request (Mesh_select_all action)
       (on_mesh (\<lambda>m. m\<lparr>vertex_select := map (\<lambda>_. action = SELECT) (vertices m),
                         edge_select := map (\<lambda>_. action = SELECT) (edges m)\<rparr>) b)"

definition mesh_select_mode :: "select_mode \<Rightarrow> blender_object \<Rightarrow> blender_object" where
  "mesh_select_mode t b =
     request (Mesh_select_mode t) (on_mesh (\<lambda>m. m\<lparr>tool_select_mode := t\<rparr>) b)"

definition clear_selection :: "blender_object \<Rightarrow> blender_object" where
  "clear_selection b = mesh_select_all DESELECT b"

definition select_vertices :: "(vec3 \<Rightarrow> bool) \<Rightarrow> blender_object \<Rightarrow> blender_object" where
  "select_vertices criterion_func b =
     (let b1 = mesh_select_all DESELECT (mesh_select_mode VERT b);
          sel = map criterion_func (vertices (data b1))
      in request (Set_vertex_select sel) (on_mesh (\<lambda>m. m\<lparr>vertex_select := sel\<rparr>) b1))"

fun collect_py :: "(py_error + 'a) list \<Rightarrow> py_error + 'a list" where
  "collect_py [] = Inr []"
| "collect_py (r # rs) =
     (case r of Inl e \<Rightarrow> Inl e
      | Inr x \<Rightarrow> (case collect_py rs of Inl e \<Rightarrow> Inl e | Inr xs \<Rightarrow> Inr (x # xs)))"

text \<open>
  An edge criterion reads the coordinates of the edge's two vertices from the current
  vertex list; an index outside the list raises IndexError.
\<close>

definition select_edges ::
  "(vec3 list \<Rightarrow> nat \<times> nat \<Rightarrow> py_error + bool) \<Rightarrow> blender_object \<Rightarrow> py_error + blender_object"
  where
  "select_edges criterion_func b =
     (let b1 = mesh_select_all DESELECT (mesh_select_mode EDGE b)
      in bind_py (collect_py (map (criterion_func (vertices (data b1))) (edges (data b1))))
           (\<lambda>sel. Inr (request (Set_edge_select sel)
                          (on_mesh (\<lambda>m. m\<lparr>edge_select := sel\<rparr>) b1))))"

definition remove_duplicate_vertices :: "engine \<Rightarrow> blender_object \<Rightarrow> blender_object" where
  "remove_duplicate_vertices E b =
     request Mesh_remove_doubles (on_mesh (eng_remove_doubles E) (mesh_select_all SELECT b))"

definition apply_bevel_modifier ::
  "engine \<Rightarrow> bevel_modifier \<Rightarrow> blender_object \<Rightarrow> blender_object" where
  "apply_bevel_modifier E settings b =
     request (Modifier_bevel settings) (on_mesh (eng_modifier_bevel E settings) b)"

definition mesh_bevel :: "engine \<Rightarrow> bevel_args \<Rightarrow> blender_object \<Rightarrow> blender_object" where
  "mesh_bevel E args b = request (Mesh_bevel args) (on_mesh (eng_mesh_bevel E args) b)"

definition extrude_region_move :: "engine \<Rightarrow> vec3 \<Rightarrow> blender_object \<Rightarrow> blender_object" where
  "extrude_region_move E v b =
     request (Mesh_extrude_region_move v) (on_mesh (eng_extrude_region_move E v) b)"

definition transform_translate :: "engine \<Rightarrow> vec3 \<Rightarrow> blender_object \<Rightarrow> blender_object" where
  "transform_translate E v b = request (Mesh_translate v) (on_mesh (eng_translate E v) b)"

definition transform_resize :: "engine \<Rightarrow> vec3 \<Rightarrow> blender_object \<Rightarrow> blender_object" where
  "transform_resize E v b = request (Mesh_resize v) (on_mesh (eng_resize E v) b)"

definition smooth_edges :: "engine \<Rightarrow> real \<Rightarrow> nat \<Rightarrow> blender_object \<Rightarrow> blender_object" where
  "smooth_edges E degree n_segments b =
     (let bevel_width = degree * max3 (dimensions b)
      in if bevel_width < BLENDER_EPS then b
         else apply_bevel_modifier E
                \<lparr>bm_offset_type = None, bm_width = Some bevel_width, bm_width_pct = None,
                 bm_segments = Some n_segments\<rparr> b)"

text \<open>
  The boolean modifier reads the other object's mesh; every object the source passes
  has its transform baked, so the mesh is the object.
\<close>

definition apply_boolean ::
  "engine \<Rightarrow> blender_object \<Rightarrow> boolean_operation \<Rightarrow> blender_object \<Rightarrow> blender_object" where
  "apply_boolean E other operation b =
     request (Modifier_boolean operation (data other))
       (on_mesh (eng_modifier_boolean E operation (data other)) b)"

text \<open>
  copy: the duplicate operator runs on the object and makes a second engine object
  with the same mesh and transform. The result is the object after the call and the
  duplicate.
\<close>

definition copy :: "blender_object \<Rightarrow> blender_object \<times> blender_object" where
  "copy b = (request Object_duplicate b, request Object_duplicate b)"

section \<open>Random draws\<close>

text \<open>
  The two random generators the source uses are modelled as streams fixed in advance:
  \<open>np_draws\<close> are the samples of [0, 1) that numpy will produce, \<open>py_draws\<close> the raw
  outcomes of Python's random; \<open>np_next\<close> and \<open>py_next\<close> count the draws taken.
  np.random.uniform(low, high) is low + (high - low) * sample.
\<close>

record rnd =
  np_draws :: "nat \<Rightarrow> real"
  np_next :: nat
  py_draws :: "nat \<Rightarrow> nat"
  py_next :: nat

definition unit_draws :: "rnd \<Rightarrow> bool" where
  "unit_draws r = (\<forall>i. 0 \<le> np_draws r i \<and> np_draws r i < 1)"

definition np_uniform :: "real \<Rightarrow> real \<Rightarrow> rnd \<Rightarrow> real \<times> rnd" where
  "np_uniform low high r =
     (low + (high - low) * np_draws r (np_next r), r\<lparr>np_next := np_next r + 1\<rparr>)"

definition np_uniform3 :: "vec3 \<Rightarrow> vec3 \<Rightarrow> rnd \<Rightarrow> vec3 \<times> rnd" where
  "np_uniform3 low high r =
     ((vx low + (vx high - vx low) * np_draws r (np_next r),
       vy low + (vy high - vy low) * np_draws r (np_next r + 1),
       vz low + (vz high - vz low) * np_draws r (np_next r + 2)),
      r\<lparr>np_next := np_next r + 3\<rparr>)"

definition random_choice :: "'a list \<Rightarrow> rnd \<Rightarrow> py_error + ('a \<times> rnd)" where
  "random_choice xs r =
     (if xs = [] then Inl IndexError
      else Inr (xs ! (py_draws r (py_next r) mod length xs), r\<lparr>py_next := py_next r + 1\<rparr>))"

section \<open>BlenderObjectReference: random placement and rotation\<close>

definition point_fits_in_cylinder :: "real \<times> real \<Rightarrow> real \<Rightarrow> vec3 \<Rightarrow> bool" where
  "point_fits_in_cylinder cylinder_axis cylinder_radius point =
     (sqrt ((vy point - fst cylinder_axis) * (vy point - fst cylinder_axis)
            + (vz point - snd cylinder_axis) * (vz point - snd cylinder_axis))
      < cylinder_radius)"

definition objects_fits_in_cylinder ::
  "real \<times> real \<Rightarrow> real \<Rightarrow> blender_object \<Rightarrow> vec3 \<Rightarrow> bool" where
  "objects_fits_in_cylinder cylinder_axis cylinder_radius b shift =
     list_all (\<lambda>v. point_fits_in_cylinder cylinder_axis cylinder_radius (vadd v shift))
       (vertices (data b))"

text \<open>
  The rejection loop \<open>while not objects_fits_in_cylinder(): shift = draw\<close>. It has no
  retry cap: when no draw is ever accepted the result is None.
\<close>

partial_function (option) redraw_shift ::
  "(vec3 \<Rightarrow> bool) \<Rightarrow> vec3 \<Rightarrow> vec3 \<Rightarrow> vec3 \<Rightarrow> rnd \<Rightarrow> (vec3 \<times> rnd) option" where
  "redraw_shift fits min_shift max_shift shift r =
     (if fits shift then Some (shift, r)
      else redraw_shift fits min_shift max_shift
             (fst (np_uniform3 min_shift max_shift r)) (snd (np_uniform3 min_shift max_shift r)))"

definition shift_between :: "vec3 \<Rightarrow> vec3 \<Rightarrow> vec3 \<Rightarrow> bool" where
  "shift_between lo hi s =
     (vx lo \<le> vx s \<and> vx s \<le> vx hi \<and> vy lo \<le> vy s \<and> vy s \<le> vy hi \<and>
      vz lo \<le> vz s \<and> vz s \<le> vz hi)"

type_synonym box = "real \<times> real \<times> real \<times> real \<times> real \<times> real"

definition position_randomly ::
  "engine \<Rightarrow> box \<Rightarrow> bool \<Rightarrow> rnd \<Rightarrow> blender_object \<Rightarrow> (blender_object \<times> vec3 \<times> rnd) option"
  where
  "position_randomly E bounding_box_arg fit_in_cylinder r b =
     (case bounding_box_arg of (x_min, x_max, y_min, y_max, z_min, z_max) \<Rightarrow>
        (let min_shift = vsub (x_min, y_min, z_min)
                           (vsub (location b) (vsmul (1 / 2) (dimensions b)));
             max_shift = vsub (x_max, y_max, z_max)
                           (vadd (location b) (vsmul (1 / 2) (dimensions b)));
             shift = fst (np_uniform3 min_shift max_shift r);
             r1 = snd (np_uniform3 min_shift max_shift r)
         in if fit_in_cylinder then
              (let cylinder_radius = max (y_max - y_min) (z_max - z_min);
                   cylinder_axis = ((y_min + y_max) / 2, (z_min + z_max) / 2)
               in case redraw_shift (objects_fits_in_cylinder cylinder_axis cylinder_radius b)
                         min_shift max_shift shift r1 of
                    None \<Rightarrow> None
                  | Some (shift', r2) \<Rightarrow> Some (translate E shift' b, shift', r2))
            else Some (translate E shift b, shift, r1)))"

text \<open>
  Four U(0,1) draws divided by their norm. A zero norm (four zero draws) makes numpy
  produce nan, which the model reports as NonFinite.
\<close>

definition apply_random_rotation ::
  "engine \<Rightarrow> rnd \<Rightarrow> blender_object \<Rightarrow> py_error + (blender_object \<times> quat \<times> rnd)" where
  "apply_random_rotation E r b =
     (let q0 = fst (np_uniform 0 1 r); r0 = snd (np_uniform 0 1 r);
          q1 = fst (np_uniform 0 1 r0); r1 = snd (np_uniform 0 1 r0);
          q2 = fst (np_uniform 0 1 r1); r2 = snd (np_uniform 0 1 r1);
          q3 = fst (np_uniform 0 1 r2); r3 = snd (np_uniform 0 1 r2);
          norm = sqrt (q0 * q0 + q1 * q1 + q2 * q2 + q3 * q3)
      in if norm = 0 then Inl NonFinite
         else (let rotation_quaternion = (q0 / norm, q1 / norm, q2 / norm, q3 / norm)
               in Inr (rotate E None (Some rotation_quaternion) b, rotation_quaternion, r3)))"

section \<open>shapes/basic.py\<close>

definition basic_Ellipsoid :: "engine \<Rightarrow> scale_arg \<Rightarrow> nat \<Rightarrow> blender_object" where
  "basic_Ellipsoid E dims subdivisions =
     (let dims' = (case dims of Scalar d \<Rightarrow> Triple (d, d, d) | Triple t \<Rightarrow> Triple t)
      in scale E dims'
           (new_object (Primitive_ico_sphere_add subdivisions (1 / 2))
              (eng_ico_sphere E subdivisions (1 / 2))))"

definition basic_Box :: "engine \<Rightarrow> scale_arg \<Rightarrow> blender_object" where
  "basic_Box E dims =
     (let dims' = (case dims of Scalar d \<Rightarrow> Triple (d, d, d) | Triple t \<Rightarrow> Triple t)
      in scale E dims' (new_object (Primitive_cube_add 1) (eng_cube E 1)))"

definition basic_Cylinder :: "engine \<Rightarrow> real \<Rightarrow> real \<Rightarrow> nat \<Rightarrow> blender_object" where
  "basic_Cylinder E diameter height n =
     new_object (Primitive_cylinder_add n (diameter / 2) height)
       (eng_cylinder E n (diameter / 2) height)"

definition upper_cap_criterion :: "vec3 \<Rightarrow> bool" where
  "upper_cap_criterion v = (vz v > - BLENDER_EPS)"

definition lower_cap_criterion :: "vec3 \<Rightarrow> bool" where
  "lower_cap_criterion v = (vz v < BLENDER_EPS)"

definition basic_SphericallyCappedCylinder ::
  "engine \<Rightarrow> real \<Rightarrow> real \<Rightarrow> nat \<Rightarrow> blender_object" where
  "basic_SphericallyCappedCylinder E diameter middle_section_height subdivisions =
     (let b = basic_Ellipsoid E (Scalar diameter) subdivisions;
          b = select_vertices upper_cap_criterion b;
          b = extrude_region_move E (0, 0, middle_section_height / 2) b;
          b = select_vertices lower_cap_criterion b
      in transform_translate E (0, 0, - middle_section_height / 2) b)"

definition rescale_to_sphere :: "engine \<Rightarrow> real \<Rightarrow> blender_object \<Rightarrow> py_error + blender_object"
  where
  "rescale_to_sphere E sz b =
     bind_py (enclosing_sphere_diameter b)
       (\<lambda>d. bind_py (py_div sz d) (\<lambda>f. Inr (scale E (Scalar f) b)))"

text \<open>
  Octahedron.__init__ is its bevels (the part before the comment "Adjust object size
  after truncation") and the final rescale.
\<close>

definition octahedron_bevels :: "engine \<Rightarrow> real \<Rightarrow> blender_object" where
  "octahedron_bevels E truncation_degree =
     (let b = new_object (Primitive_cube_add 1) (eng_cube E 1);
          b = apply_bevel_modifier E
                \<lparr>bm_offset_type = Some PERCENT, bm_width = None, bm_width_pct = Some 100,
                 bm_segments = None\<rparr> b;
          b = remove_duplicate_vertices E b
      in if truncation_degree > 0 then
           (let truncation_degree' = truncation_degree / 3;
                b = apply_bevel_modifier E
                      \<lparr>bm_offset_type = Some PERCENT, bm_width = None,
                       bm_width_pct = Some (100 * truncation_degree'),
                       bm_segments = None\<rparr> b
            in remove_duplicate_vertices E b)
         else b)"

definition basic_Octahedron :: "engine \<Rightarrow> real \<Rightarrow> real \<Rightarrow> py_error + blender_object" where
  "basic_Octahedron E sz truncation_degree =
     rescale_to_sphere E sz (octahedron_bevels E truncation_degree)"

definition basic_Icosahedron :: "engine \<Rightarrow> real \<Rightarrow> blender_object" where
  "basic_Icosahedron E sz =
     new_object (Primitive_ico_sphere_add 1 (sz / 2)) (eng_ico_sphere E 1 (sz / 2))"

definition edge_vertical :: "vec3 list \<Rightarrow> nat \<times> nat \<Rightarrow> bool" where
  "edge_vertical vs e =
     (\<bar>vx (vs ! snd e) - vx (vs ! fst e)\<bar> < BLENDER_EPS \<and>
      \<bar>vy (vs ! snd e) - vy (vs ! fst e)\<bar> < BLENDER_EPS)"

definition is_edge_vertical :: "vec3 list \<Rightarrow> nat \<times> nat \<Rightarrow> py_error + bool" where
  "is_edge_vertical vs e =
     (if fst e < length vs \<and> snd e < length vs then Inr (edge_vertical vs e)
      else Inl IndexError)"

definition is_edge_not_vertical :: "vec3 list \<Rightarrow> nat \<times> nat \<Rightarrow> py_error + bool" where
  "is_edge_not_vertical vs e = bind_py (is_edge_vertical vs e) (\<lambda>t. Inr (\<not> t))"

definition rescale_to_diagonal ::
  "engine \<Rightarrow> real \<Rightarrow> blender_object \<Rightarrow> py_error + blender_object" where
  "rescale_to_diagonal E sz b =
     bind_py (np_div sz (hypot (vx (dimensions b)) (vy (dimensions b))))
       (\<lambda>f. Inr (scale E (Scalar f) b))"

definition prism_truncate :: "engine \<Rightarrow> real \<Rightarrow> blender_object \<Rightarrow> py_error + blender_object"
  where
  "prism_truncate E truncation_degree b =
     (if truncation_degree > 0 then
        bind_py (select_edges is_edge_vertical b)
          (\<lambda>b. let truncation_degree' = truncation_degree * (1 / 2);
                    b = mesh_bevel E
                          \<lparr>ba_affect = None, ba_offset_type = Some PERCENT, ba_offset = None,
                           ba_offset_pct = Some (100 * truncation_degree'),
                           ba_segments = None, ba_clamp_overlap = Some True\<rparr> b
                in Inr (remove_duplicate_vertices E b))
      else Inr b)"

definition prism_smooth_tips ::
  "engine \<Rightarrow> real \<Rightarrow> nat \<Rightarrow> blender_object \<Rightarrow> py_error + blender_object" where
  "prism_smooth_tips E tips_smoothing_degree smoothing_bevel_segments b =
     (if tips_smoothing_degree > 0 then
        bind_py (select_edges is_edge_vertical b)
          (\<lambda>b. let b = mesh_bevel E
                          \<lparr>ba_affect = None, ba_offset_type = None,
                           ba_offset = Some (tips_smoothing_degree * vx (dimensions b)),
                           ba_offset_pct = None,
                           ba_segments = Some smoothing_bevel_segments,
                           ba_clamp_overlap = Some True\<rparr> b
                in Inr (remove_duplicate_vertices E b))
      else Inr b)"

definition prism_smooth_edges ::
  "engine \<Rightarrow> real \<Rightarrow> nat \<Rightarrow> blender_object \<Rightarrow> py_error + blender_object" where
  "prism_smooth_edges E edges_smoothing_degree smoothing_bevel_segments b =
     (if edges_smoothing_degree > 0 then
        bind_py (select_edges is_edge_not_vertical b)
          (\<lambda>b. let b = mesh_bevel E
                          \<lparr>ba_affect = None, ba_offset_type = None,
                           ba_offset = Some (edges_smoothing_degree * vz (dimensions b)),
                           ba_offset_pct = None,
                           ba_segments = Some smoothing_bevel_segments,
                           ba_clamp_overlap = Some True\<rparr> b
                in Inr (remove_duplicate_vertices E b))
      else Inr b)"

text \<open>
  Prism.__init__ is its three guarded steps in sequence (each an \<open>if\<close> block of the
  source) and the final rescale.
\<close>

definition basic_Prism ::
  "engine \<Rightarrow> nat \<Rightarrow> real \<Rightarrow> real \<Rightarrow> real \<Rightarrow> real \<Rightarrow> real \<Rightarrow> nat \<Rightarrow> py_error + blender_object"
  where
  "basic_Prism E n_sides sz height truncation_degree tips_smoothing_degree
       edges_smoothing_degree smoothing_bevel_segments =
     (let b = new_object (Primitive_cylinder_add n_sides (sz / 2) height)
                (eng_cylinder E n_sides (sz / 2) height)
      in bind_py (prism_truncate E truncation_degree b)
           (\<lambda>b. bind_py (prism_smooth_tips E tips_smoothing_degree smoothing_bevel_segments b)
             (\<lambda>b. bind_py (prism_smooth_edges E edges_smoothing_degree
                              smoothing_bevel_segments b)
               (\<lambda>b. rescale_to_diagonal E sz b))))"

definition is_vertex_out_of_plane :: "vec3 \<Rightarrow> bool" where
  "is_vertex_out_of_plane v = (\<bar>vz v\<bar> > BLENDER_EPS)"

definition bipyramid_truncate_tips :: "engine \<Rightarrow> real \<Rightarrow> blender_object \<Rightarrow> blender_object"
  where
  "bipyramid_truncate_tips E tips_truncation_degree b =
     (if tips_truncation_degree > 0 then
        (let b = select_vertices is_vertex_out_of_plane b;
             bevel_width = tips_truncation_degree * max3 (dimensions b)
         in if bevel_width < BLENDER_EPS then b
            else remove_duplicate_vertices E
                   (mesh_bevel E
                      \<lparr>ba_affect = Some VERTICES, ba_offset_type = Some WIDTH,
                       ba_offset = Some bevel_width, ba_offset_pct = None,
                       ba_segments = Some 1, ba_clamp_overlap = Some True\<rparr> b))
      else b)"

definition basic_Bipyramid :: "engine \<Rightarrow> nat \<Rightarrow> real \<Rightarrow> real \<Rightarrow> real \<Rightarrow> blender_object"
  where
  "basic_Bipyramid E n_sides diameter height tips_truncation_degree =
     (let b = new_object (Primitive_circle_add n_sides (diameter / 2))
                (eng_circle E n_sides (diameter / 2));
          b = mesh_select_all SELECT b;
          b = extrude_region_move E (0, 0, height / 2) b;
          b = transform_resize E (0, 0, 0) b;
          b = select_vertices lower_cap_criterion b;
          b = extrude_region_move E (0, 0, - height / 2) b;
          b = transform_resize E (0, 0, 0) b;
          b = remove_duplicate_vertices E b
      in bipyramid_truncate_tips E tips_truncation_degree b)"

section \<open>shapes/fcc.py\<close>

definition fcc_Sphere :: "engine \<Rightarrow> real \<Rightarrow> blender_object" where
  "fcc_Sphere E diameter = basic_Ellipsoid E (Scalar diameter) 5"

definition rescale_to_max_dimension ::
  "engine \<Rightarrow> real \<Rightarrow> blender_object \<Rightarrow> py_error + blender_object" where
  "rescale_to_max_dimension E sz b =
     bind_py (py_div sz (max3 (dimensions b))) (\<lambda>f. Inr (scale E (Scalar f) b))"

definition rescale_to_z_dimension ::
  "engine \<Rightarrow> real \<Rightarrow> blender_object \<Rightarrow> py_error + blender_object" where
  "rescale_to_z_dimension E height b =
     bind_py (py_div height (vz (dimensions b))) (\<lambda>f. Inr (scale E (Scalar f) b))"

definition fcc_Cube :: "engine \<Rightarrow> real \<Rightarrow> real \<Rightarrow> py_error + blender_object" where
  "fcc_Cube E sz smoothing_degree =
     rescale_to_max_dimension E sz (smooth_edges E smoothing_degree 3 (basic_Box E (Scalar sz)))"

definition fcc_Rod :: "engine \<Rightarrow> real \<Rightarrow> real \<Rightarrow> blender_object" where
  "fcc_Rod E height diameter =
     (let middle_section_height = height - diameter
      in basic_SphericallyCappedCylinder E diameter middle_section_height 5)"

definition fcc_Octahedron :: "engine \<Rightarrow> real \<Rightarrow> real \<Rightarrow> py_error + blender_object" where
  "fcc_Octahedron E sz smoothing_degree =
     bind_py (basic_Octahedron E sz 0)
       (\<lambda>b. rescale_to_sphere E sz (smooth_edges E smoothing_degree 3 b))"

definition fcc_TruncatedOctahedron ::
  "engine \<Rightarrow> real \<Rightarrow> real \<Rightarrow> real \<Rightarrow> py_error + blender_object" where
  "fcc_TruncatedOctahedron E sz truncation_degree smoothing_degree =
     bind_py (basic_Octahedron E sz truncation_degree)
       (\<lambda>b. rescale_to_sphere E sz (smooth_edges E smoothing_degree 3 b))"

definition fcc_Icosahedron :: "engine \<Rightarrow> real \<Rightarrow> real \<Rightarrow> py_error + blender_object" where
  "fcc_Icosahedron E sz smoothing_degree =
     rescale_to_sphere E sz (smooth_edges E smoothing_degree 3 (basic_Icosahedron E sz))"

definition fcc_Triangle ::
  "engine \<Rightarrow> real \<Rightarrow> real \<Rightarrow> real \<Rightarrow> real \<Rightarrow> py_error + blender_object" where
  "fcc_Triangle E sz height tips_smoothing_degree edges_smoothing_degree =
     (let n_sides = 3; truncation_degree = 0
      in bind_py (basic_Prism E n_sides sz height truncation_degree tips_smoothing_degree
                    edges_smoothing_degree 3)
           (\<lambda>b. rescale_to_diagonal E sz b))"

definition fcc_TruncatedTriangle ::
  "engine \<Rightarrow> real \<Rightarrow> real \<Rightarrow> real \<Rightarrow> real \<Rightarrow> real \<Rightarrow> py_error + blender_object" where
  "fcc_TruncatedTriangle E sz height truncation_degree tips_smoothing_degree
       edges_smoothing_degree =
     basic_Prism E 3 sz height truncation_degree tips_smoothing_degree
       edges_smoothing_degree 3"

definition fcc_Square ::
  "engine \<Rightarrow> real \<Rightarrow> real \<Rightarrow> real \<Rightarrow> real \<Rightarrow> real \<Rightarrow> py_error + blender_object" where
  "fcc_Square E sz height truncation_degree tips_smoothing_degree edges_smoothing_degree =
     basic_Prism E 4 sz height truncation_degree tips_smoothing_degree
       edges_smoothing_degree 3"

definition fcc_Hexagon ::
  "engine \<Rightarrow> real \<Rightarrow> real \<Rightarrow> real \<Rightarrow> real \<Rightarrow> real \<Rightarrow> py_error + blender_object" where
  "fcc_Hexagon E sz height truncation_degree tips_smoothing_degree edges_smoothing_degree =
     basic_Prism E 6 sz height truncation_degree tips_smoothing_degree
       edges_smoothing_degree 3"

definition fcc_Decahedron :: "engine \<Rightarrow> real \<Rightarrow> real \<Rightarrow> py_error + blender_object" where
  "fcc_Decahedron E sz smoothing_degree =
     (let n_sides = 5; height = 1547 / 1000 * sz / 2
      in rescale_to_diagonal E sz
           (smooth_edges E smoothing_degree 3 (basic_Bipyramid E n_sides sz height 0)))"

definition fcc_Bipyramid :: "engine \<Rightarrow> real \<Rightarrow> real \<Rightarrow> real \<Rightarrow> py_error + blender_object"
  where
  "fcc_Bipyramid E height tips_truncation_degree smoothing_degree =
     (let n_sides = 5; diameter = height / (37321 / 10000)
      in rescale_to_z_dimension E height
           (smooth_edges E smoothing_degree 3
              (basic_Bipyramid E n_sides diameter height tips_truncation_degree)))"

text \<open>
  A shape recipe: one constructor call of shapes/fcc.py with its arguments. \<open>build\<close>
  runs it; \<open>nominal_size\<close> is the size (or height) argument and \<open>size_metric\<close> the
  quantity that the recipe's last rescale divides by. Sphere and Rod have no final
  rescale.
\<close>

datatype shape =
    FccSphere real
  | FccCube real real
  | FccRod real real
  | FccOctahedron real real
  | FccTruncatedOctahedron real real real
  | FccIcosahedron real real
  | FccTriangle real real real real
  | FccTruncatedTriangle real real real real real
  | FccSquare real real real real real
  | FccHexagon real real real real real
  | FccDecahedron real real
  | FccBipyramid real real real

fun build :: "engine \<Rightarrow> shape \<Rightarrow> py_error + blender_object" where
  "build E (FccSphere d) = Inr (fcc_Sphere E d)"
| "build E (FccCube s sm) = fcc_Cube E s sm"
| "build E (FccRod h d) = Inr (fcc_Rod E h d)"
| "build E (FccOctahedron s sm) = fcc_Octahedron E s sm"
| "build E (FccTruncatedOctahedron s t sm) = fcc_TruncatedOctahedron E s t sm"
| "build E (FccIcosahedron s sm) = fcc_Icosahedron E s sm"
| "build E (FccTriangle s h ts es) = fcc_Triangle E s h ts es"
| "build E (FccTruncatedTriangle s h t ts es) = fcc_TruncatedTriangle E s h t ts es"
| "build E (FccSquare s h t ts es) = fcc_Square E s h t ts es"
| "build E (FccHexagon s h t ts es) = fcc_Hexagon E s h t ts es"
| "build E (FccDecahedron s sm) = fcc_Decahedron E s sm"
| "build E (FccBipyramid h t sm) = fcc_Bipyramid E h t sm"





section \<open>shapes/randomized/fcc.py\<close>

text \<open>
  Each class of the randomized package draws its parameters and calls the class of the
  same name in shapes/fcc.py. \<open>sample\<close> is the drawing part of the twelve
  constructors; \<open>construct\<close> is a constructor call with no arguments.
\<close>

datatype shape_class =
    Sphere | Cube | Rod | Octahedron | TruncatedOctahedron | Icosahedron
  | Triangle | TruncatedTriangle | Square | Hexagon | Decahedron | Bipyramid

fun sample :: "shape_class \<Rightarrow> rnd \<Rightarrow> shape \<times> rnd" where
  "sample Sphere r = (FccSphere 1, r)"
| "sample Cube r =
     (let sz = 1;
          smoothing_degree = fst (np_uniform 0 (1 / 10) r); r1 = snd (np_uniform 0 (1 / 10) r)
      in (FccCube sz smoothing_degree, r1))"
| "sample Rod r =
     (let height = 1;
          diameter = fst (np_uniform (1 / 4) 1 r); r1 = snd (np_uniform (1 / 4) 1 r)
      in (FccRod height diameter, r1))"
| "sample Octahedron r =
     (let sz = 1;
          smoothing_degree = fst (np_uniform 0 (1 / 10) r); r1 = snd (np_uniform 0 (1 / 10) r)
      in (FccOctahedron sz smoothing_degree, r1))"
| "sample TruncatedOctahedron r =
     (let sz = 1;
          truncation_degree = fst (np_uniform 0 1 r); r1 = snd (np_uniform 0 1 r);
          smoothing_degree = fst (np_uniform 0 (1 / 10) r1); r2 = snd (np_uniform 0 (1 / 10) r1)
      in (FccTruncatedOctahedron sz truncation_degree smoothing_degree, r2))"
| "sample Icosahedron r =
     (let sz = 1;
          smoothing_degree = fst (np_uniform 0 (1 / 10) r); r1 = snd (np_uniform 0 (1 / 10) r)
      in (FccIcosahedron sz smoothing_degree, r1))"
| "sample Triangle r =
     (let sz = 1;
          height = fst (np_uniform (1 / 10) (3 / 10) r); r1 = snd (np_uniform (1 / 10) (3 / 10) r);
          tips = fst (np_uniform 0 (1 / 10) r1); r2 = snd (np_uniform 0 (1 / 10) r1);
          edges' = fst (np_uniform 0 (1 / 10) r2); r3 = snd (np_uniform 0 (1 / 10) r2)
      in (FccTriangle sz height tips edges', r3))"
| "sample TruncatedTriangle r =
     (let sz = 1;
          height = fst (np_uniform (1 / 10) (3 / 10) r); r1 = snd (np_uniform (1 / 10) (3 / 10) r);
          truncation_degree = fst (np_uniform 0 1 r1); r2 = snd (np_uniform 0 1 r1);
          tips = fst (np_uniform 0 (1 / 10) r2); r3 = snd (np_uniform 0 (1 / 10) r2);
          edges' = fst (np_uniform 0 (1 / 10) r3); r4 = snd (np_uniform 0 (1 / 10) r3)
      in (FccTruncatedTriangle sz height truncation_degree tips edges', r4))"
| "sample Square r =
     (let sz = 1;
          height = fst (np_uniform (1 / 10) (3 / 10) r); r1 = snd (np_uniform (1 / 10) (3 / 10) r);
          truncation_degree = 0;
          tips = fst (np_uniform 0 (1 / 10) r1); r2 = snd (np_uniform 0 (1 / 10) r1);
          edges' = fst (np_uniform 0 (1 / 10) r2); r3 = snd (np_uniform 0 (1 / 10) r2)
      in (FccSquare sz height truncation_degree tips edges', r3))"
| "sample Hexagon r =
     (let sz = 1;
          height = fst (np_uniform (1 / 10) (3 / 10) r); r1 = snd (np_uniform (1 / 10) (3 / 10) r);
          truncation_degree = 0;
          tips = fst (np_uniform 0 (1 / 10) r1); r2 = snd (np_uniform 0 (1 / 10) r1);
          edges' = fst (np_uniform 0 (1 / 10) r2); r3 = snd (np_uniform 0 (1 / 10) r2)
      in (FccHexagon sz height truncation_degree tips edges', r3))"
| "sample Decahedron r =
     (let sz = 1;
          smoothing_degree = fst (np_uniform 0 (1 / 10) r); r1 = snd (np_uniform 0 (1 / 10) r)
      in (FccDecahedron sz smoothing_degree, r1))"
| "sample Bipyramid r =
     (let height = 1;
          smoothing_degree = fst (np_uniform 0 (1 / 10) r); r1 = snd (np_uniform 0 (1 / 10) r)
      in (FccBipyramid height smoothing_degree smoothing_degree, r1))"

definition construct :: "engine \<Rightarrow> shape_class \<Rightarrow> rnd \<Rightarrow> (py_error + blender_object) \<times> rnd"
  where
  "construct E c r = (build E (fst (sample c r)), snd (sample c r))"

text \<open>
  The pools of the package are tuples of classes; what the scene does with a pool is
  to pick an entry and call it.
\<close>

type_synonym constructor = "rnd \<Rightarrow> (py_error + blender_object) \<times> rnd"


definition CORE_SHELL_SUITABLE_SHAPES :: "engine \<Rightarrow> constructor list" where
  "CORE_SHELL_SUITABLE_SHAPES E =
     map (construct E)
       [Sphere, Cube, Rod, Octahedron, TruncatedOctahedron, Icosahedron, Decahedron,
        Bipyramid]"


section \<open>scene_building.py\<close>

text \<open>
  A Scene holds its extent and the objects that exist in the engine's scene. An
  object enters the scene when a primitive is added or an object is duplicated; it
  leaves only through the operator bpy.ops.object.delete (the method delete) or when
  the scene itself is deleted.
\<close>

record scene =
  extent :: box
  scene_objects :: "blender_object list"


definition shrink :: "box \<Rightarrow> box" where
  "shrink ext =
     (case ext of (x_min, x_max, y_min, y_max, z_min, z_max) \<Rightarrow>
        (95 / 100 * x_min, 95 / 100 * x_max, 95 / 100 * y_min, 95 / 100 * y_max,
         95 / 100 * z_min, 95 / 100 * z_max))"


text \<open>
  The last statement before the return, \<open>del core_shape_copy\<close>, unbinds the Python
  name; it calls no operator of the engine, so the duplicate remains among the
  scene's objects.
\<close>

definition add_random_core_shell_shape ::
  "engine \<Rightarrow> constructor list \<Rightarrow> scene \<Rightarrow> rnd \<Rightarrow>
   (py_error + ((blender_object \<times> blender_object) \<times> scene \<times> rnd)) option" where
  "add_random_core_shell_shape E pool sc r =
     (case random_choice pool r of
        Inl e \<Rightarrow> Some (Inl e)
      | Inr (c, r1) \<Rightarrow>
     (case c r1 of
        (Inl e, r2) \<Rightarrow> Some (Inl e)
      | (Inr shell_shape, r2) \<Rightarrow>
     (case apply_random_rotation E r2 shell_shape of
        Inl e \<Rightarrow> Some (Inl e)
      | Inr (shell_shape, shell_rotation_quaternion, r3) \<Rightarrow>
     (let shell_scale_factor = fst (np_uniform (3 / 4) (9 / 10) r3);
          r4 = snd (np_uniform (3 / 4) (9 / 10) r3)
      in
     (case py_div shell_scale_factor (max3 (dimensions shell_shape)) of
        Inl e \<Rightarrow> Some (Inl e)
      | Inr f \<Rightarrow>
     (case position_randomly E (shrink (extent sc)) True r4
             (scale E (Scalar f) shell_shape) of
        None \<Rightarrow> None
      | Some (shell_shape, shell_shift, r5) \<Rightarrow>
     (case random_choice pool r5 of
        Inl e \<Rightarrow> Some (Inl e)
      | Inr (c', r6) \<Rightarrow>
     (case c' r6 of
        (Inl e, r7) \<Rightarrow> Some (Inl e)
      | (Inr core_shape, r7) \<Rightarrow>
     (let core_shape = rotate E None (Some shell_rotation_quaternion) core_shape;
          core_scale_factor = fst (np_uniform (1 / 2) (9 / 10) r7);
          r8 = snd (np_uniform (1 / 2) (9 / 10) r7)
      in
     (case bind_py (enclosing_sphere_diameter shell_shape)
             (\<lambda>ds. bind_py (enclosing_sphere_diameter core_shape)
                (\<lambda>dc. py_div (core_scale_factor * ds) dc)) of
        Inl e \<Rightarrow> Some (Inl e)
      | Inr g \<Rightarrow>
     (let core_shape = scale E (Scalar g) core_shape;
          core_shape = translate E shell_shift core_shape;
          core_shape_copy = snd (copy core_shape);
          core_shape = fst (copy core_shape);
          core_shape = apply_boolean E shell_shape INTERSECT core_shape;
          shell_shape = apply_boolean E core_shape_copy DIFFERENCE shell_shape
      in Some (Inr ((core_shape, shell_shape),
                    sc\<lparr>scene_objects :=
                         scene_objects sc @ [shell_shape, core_shape, core_shape_copy]\<rparr>,
                    r8)))))))))))))"

section \<open>Base shapes\<close>

text \<open>
  The untruncated, unsmoothed base shape of each recipe, following the spec's table of
  build sequences with every truncation and smoothing step left out: the primitive
  (for the octahedron the cube with its 100% bevel and weld, for the bipyramids the
  extruded and welded polygon) and the final rescale. \<open>zero_degrees\<close> says that
  a recipe's truncation and smoothing degrees are all 0.
\<close>

definition octahedron_base :: "engine \<Rightarrow> blender_object" where
  "octahedron_base E =
     remove_duplicate_vertices E
       (apply_bevel_modifier E
          \<lparr>bm_offset_type = Some PERCENT, bm_width = None, bm_width_pct = Some 100,
           bm_segments = None\<rparr>
          (new_object (Primitive_cube_add 1) (eng_cube E 1)))"

definition bipyramid_base :: "engine \<Rightarrow> nat \<Rightarrow> real \<Rightarrow> real \<Rightarrow> blender_object" where
  "bipyramid_base E n_sides diameter height =
     remove_duplicate_vertices E
       (transform_resize E (0, 0, 0)
          (extrude_region_move E (0, 0, - height / 2)
             (select_vertices lower_cap_criterion
                (transform_resize E (0, 0, 0)
                   (extrude_region_move E (0, 0, height / 2)
                      (mesh_select_all SELECT
                         (new_object (Primitive_circle_add n_sides (diameter / 2))
                            (eng_circle E n_sides (diameter / 2)))))))))"

fun base_shape :: "engine \<Rightarrow> shape \<Rightarrow> py_error + blender_object" where
  "base_shape E (FccSphere d) = Inr (basic_Ellipsoid E (Scalar d) 5)"
| "base_shape E (FccCube s sm) = rescale_to_max_dimension E s (basic_Box E (Scalar s))"
| "base_shape E (FccRod h d) = Inr (basic_SphericallyCappedCylinder E d (h - d) 5)"
| "base_shape E (FccOctahedron s sm) =
     bind_py (rescale_to_sphere E s (octahedron_base E)) (rescale_to_sphere E s)"
| "base_shape E (FccTruncatedOctahedron s t sm) =
     bind_py (rescale_to_sphere E s (octahedron_base E)) (rescale_to_sphere E s)"
| "base_shape E (FccIcosahedron s sm) = rescale_to_sphere E s (basic_Icosahedron E s)"
| "base_shape E (FccTriangle s h ts es) =
     bind_py (rescale_to_diagonal E s (basic_Cylinder E s h 3)) (rescale_to_diagonal E s)"
| "base_shape E (FccTruncatedTriangle s h t ts es) =
     rescale_to_diagonal E s (basic_Cylinder E s h 3)"
| "base_shape E (FccSquare s h t ts es) = rescale_to_diagonal E s (basic_Cylinder E s h 4)"
| "base_shape E (FccHexagon s h t ts es) = rescale_to_diagonal E s (basic_Cylinder E s h 6)"
| "base_shape E (FccDecahedron s sm) =
     rescale_to_diagonal E s (bipyramid_base E 5 s (1547 / 1000 * s / 2))"
| "base_shape E (FccBipyramid h t sm) =
     rescale_to_z_dimension E h (bipyramid_base E 5 (h / (37321 / 10000)) h)"

fun zero_degrees :: "shape \<Rightarrow> bool" where
  "zero_degrees (FccSphere d) = True"
| "zero_degrees (FccCube s sm) = (sm = 0)"
| "zero_degrees (FccRod h d) = True"
| "zero_degrees (FccOctahedron s sm) = (sm = 0)"
| "zero_degrees (FccTruncatedOctahedron s t sm) = (t = 0 \<and> sm = 0)"
| "zero_degrees (FccIcosahedron s sm) = (sm = 0)"
| "zero_degrees (FccTriangle s h ts es) = (ts = 0 \<and> es = 0)"
| "zero_degrees (FccTruncatedTriangle s h t ts es) = (t = 0 \<and> ts = 0 \<and> es = 0)"
| "zero_degrees (FccSquare s h t ts es) = (t = 0 \<and> ts = 0 \<and> es = 0)"
| "zero_degrees (FccHexagon s h t ts es) = (t = 0 \<and> ts = 0 \<and> es = 0)"
| "zero_degrees (FccDecahedron s sm) = (sm = 0)"
| "zero_degrees (FccBipyramid h t sm) = (t = 0 \<and> sm = 0)"

fun bevel_or_weld :: "call \<Rightarrow> bool" where
  "bevel_or_weld (Modifier_bevel settings) = True"
| "bevel_or_weld (Mesh_bevel args) = True"
| "bevel_or_weld Mesh_remove_doubles = True"
| "bevel_or_weld c = False"

text \<open>The bevels and welds that build the base shape itself.\<close>

fun base_bevels_and_welds :: "shape \<Rightarrow> call list" where
  "base_bevels_and_welds (FccOctahedron s sm) =
     [Modifier_bevel \<lparr>bm_offset_type = Some PERCENT, bm_width = None,
                      bm_width_pct = Some 100, bm_segments = None\<rparr>, Mesh_remove_doubles]"
| "base_bevels_and_welds (FccTruncatedOctahedron s t sm) =
     [Modifier_bevel \<lparr>bm_offset_type = Some PERCENT, bm_width = None,
                      bm_width_pct = Some 100, bm_segments = None\<rparr>, Mesh_remove_doubles]"
| "base_bevels_and_welds (FccDecahedron s sm) = [Mesh_remove_doubles]"
| "base_bevels_and_welds (FccBipyramid h t sm) = [Mesh_remove_doubles]"
| "base_bevels_and_welds shp = []"

section \<open>A test engine\<close>

text \<open>
  A small concrete engine on which the recipes can be run. It keeps vertices and
  edges only. Its cube is the eight corners; its sphere is the six axis points; its
  cylinder and circle are four-sided whatever vertex count is asked; bevels, booleans
  and welding leave the mesh as it is; rotations leave every point in place; extrusion
  appends moved copies of the selected vertices and moves the selection to them;
  translate and resize act on the selected vertices (resize about their mean).
\<close>

definition test_mesh :: "vec3 list \<Rightarrow> (nat \<times> nat) list \<Rightarrow> mesh" where
  "test_mesh vs es =
     \<lparr>vertices = vs, edges = es, polygons = [], vertex_select = map (\<lambda>_. True) vs,
      edge_select = map (\<lambda>_. True) es, tool_select_mode = VERT\<rparr>"

definition test_cube :: "real \<Rightarrow> mesh" where
  "test_cube s =
     test_mesh
       [(- s / 2, - s / 2, - s / 2), (- s / 2, - s / 2, s / 2), (- s / 2, s / 2, - s / 2),
        (- s / 2, s / 2, s / 2), (s / 2, - s / 2, - s / 2), (s / 2, - s / 2, s / 2),
        (s / 2, s / 2, - s / 2), (s / 2, s / 2, s / 2)]
       [(0, 1), (0, 2), (0, 4), (1, 3), (1, 5), (2, 3), (2, 6), (3, 7), (4, 5), (4, 6),
        (5, 7), (6, 7)]"

definition test_ico_sphere :: "nat \<Rightarrow> real \<Rightarrow> mesh" where
  "test_ico_sphere subdivisions r =
     test_mesh [(0, 0, - r), (r, 0, 0), (0, r, 0), (- r, 0, 0), (0, - r, 0), (0, 0, r)] []"

definition test_cylinder :: "nat \<Rightarrow> real \<Rightarrow> real \<Rightarrow> mesh" where
  "test_cylinder n r d =
     test_mesh
       [(0, r, - d / 2), (0, r, d / 2), (r, 0, - d / 2), (r, 0, d / 2),
        (0, - r, - d / 2), (0, - r, d / 2), (- r, 0, - d / 2), (- r, 0, d / 2)]
       [(0, 1), (2, 3), (4, 5), (6, 7), (0, 2), (2, 4), (4, 6), (6, 0),
        (1, 3), (3, 5), (5, 7), (7, 1)]"

definition test_circle :: "nat \<Rightarrow> real \<Rightarrow> mesh" where
  "test_circle n r =
     test_mesh [(0, r, 0), (r, 0, 0), (0, - r, 0), (- r, 0, 0)]
       [(0, 1), (1, 2), (2, 3), (3, 0)]"

fun selected_of :: "vec3 list \<Rightarrow> bool list \<Rightarrow> vec3 list" where
  "selected_of [] ss = []"
| "selected_of (p # ps) [] = []"
| "selected_of (p # ps) (s # ss) = (if s then p # selected_of ps ss else selected_of ps ss)"

fun map_selected :: "(vec3 \<Rightarrow> vec3) \<Rightarrow> vec3 list \<Rightarrow> bool list \<Rightarrow> vec3 list" where
  "map_selected f [] ss = []"
| "map_selected f (p # ps) [] = p # ps"
| "map_selected f (p # ps) (s # ss) = (if s then f p else p) # map_selected f ps ss"

definition mean_point :: "vec3 list \<Rightarrow> vec3" where
  "mean_point ps =
     (sum_list (map vx ps) / real (length ps), sum_list (map vy ps) / real (length ps),
      sum_list (map vz ps) / real (length ps))"

definition test_extrude :: "vec3 \<Rightarrow> mesh \<Rightarrow> mesh" where
  "test_extrude d m =
     (let new = map (\<lambda>p. vadd p d) (selected_of (vertices m) (vertex_select m))
      in m\<lparr>vertices := vertices m @ new,
            vertex_select := map (\<lambda>_. False) (vertices m) @ map (\<lambda>_. True) new\<rparr>)"

definition test_translate :: "vec3 \<Rightarrow> mesh \<Rightarrow> mesh" where
  "test_translate d m =
     m\<lparr>vertices := map_selected (\<lambda>p. vadd p d) (vertices m) (vertex_select m)\<rparr>"

definition test_resize :: "vec3 \<Rightarrow> mesh \<Rightarrow> mesh" where
  "test_resize s m =
     (let c = mean_point (selected_of (vertices m) (vertex_select m))
      in m\<lparr>vertices :=
              map_selected (\<lambda>p. vadd c (vmul s (vsub p c))) (vertices m) (vertex_select m)\<rparr>)"

definition test_engine :: engine where
  "test_engine =
     \<lparr>eng_ico_sphere = test_ico_sphere,
      eng_cube = test_cube,
      eng_cylinder = test_cylinder,
      eng_circle = test_circle,
      eng_modifier_bevel = (\<lambda>settings m. m),
      eng_modifier_boolean = (\<lambda>operation other m. m),
      eng_mesh_bevel = (\<lambda>args m. m),
      eng_extrude_region_move = test_extrude,
      eng_translate = test_translate,
      eng_resize = test_resize,
      eng_remove_doubles = (\<lambda>m. m),
      eng_rotation = (\<lambda>m e q v. v),
      eng_rotmode_change = (\<lambda>old new eq. eq)\<rparr>"

definition test_cube_object :: blender_object where
  "test_cube_object = new_object (Primitive_cube_add 1) (eng_cube test_engine 1)"

definition half_draws :: rnd where
  "half_draws = \<lparr>np_draws = (\<lambda>i. 1 / 2), np_next = 0, py_draws = (\<lambda>i. 0), py_next = 0\<rparr>"

definition test_prism_object :: blender_object where
  "test_prism_object = basic_Cylinder test_engine 1 (1 / 5) 4"



section \<open>Vector facts\<close>

lemma vx_simp [simp]: "vx (a, b, c) = a"
  by (simp add: vx_def)

lemma vy_simp [simp]: "vy (a, b, c) = b"
  by (simp add: vy_def)

lemma vz_simp [simp]: "vz (a, b, c) = c"
  by (simp add: vz_def)

lemma vec3_eqI: "vx a = vx b \<Longrightarrow> vy a = vy b \<Longrightarrow> vz a = vz b \<Longrightarrow> a = b"
  by (simp add: vx_def vy_def vz_def prod_eq_iff)

lemma vlength_vsmul: "vlength (vsmul s a) = \<bar>s\<bar> * vlength a"
proof -
  have "s * vx a * (s * vx a) + s * vy a * (s * vy a) + s * vz a * (s * vz a)
        = s\<^sup>2 * (vx a * vx a + vy a * vy a + vz a * vz a)"
    by (simp add: power2_eq_square algebra_simps)
  then show ?thesis
    by (simp add: vlength_def vsmul_def real_sqrt_mult)
qed

lemma vsub_vsmul: "vsub (vsmul s a) (vsmul s b) = vsmul s (vsub a b)"
  by (simp add: vsub_def vsmul_def algebra_simps)

lemma Min_image_times:
  fixes f :: "'a \<Rightarrow> real"
  assumes "finite A" "A \<noteq> {}"
  shows "Min ((\<lambda>x. s * f x) ` A) = (if 0 \<le> s then s * Min (f ` A) else s * Max (f ` A))"
proof (cases "0 \<le> s")
  case True
  have "Min ((\<lambda>x. s * f x) ` A) = s * Min (f ` A)"
  proof (rule Min_eqI)
    show "finite ((\<lambda>x. s * f x) ` A)" using assms by simp
    show "s * Min (f ` A) \<le> y" if "y \<in> (\<lambda>x. s * f x) ` A" for y
    proof -
      from that obtain x where x: "x \<in> A" "y = s * f x" by auto
      have "Min (f ` A) \<le> f x" using assms x by simp
      then show ?thesis using True x by (simp add: mult_left_mono)
    qed
    have "Min (f ` A) \<in> f ` A" using assms by (intro Min_in) auto
    then show "s * Min (f ` A) \<in> (\<lambda>x. s * f x) ` A" by auto
  qed
  then show ?thesis using True by simp
next
  case False
  have "Min ((\<lambda>x. s * f x) ` A) = s * Max (f ` A)"
  proof (rule Min_eqI)
    show "finite ((\<lambda>x. s * f x) ` A)" using assms by simp
    show "s * Max (f ` A) \<le> y" if "y \<in> (\<lambda>x. s * f x) ` A" for y
    proof -
      from that obtain x where x: "x \<in> A" "y = s * f x" by auto
      have "f x \<le> Max (f ` A)" using assms x by simp
      then show ?thesis using False x by (simp add: mult_left_mono_neg)
    qed
    have "Max (f ` A) \<in> f ` A" using assms by (intro Max_in) auto
    then show "s * Max (f ` A) \<in> (\<lambda>x. s * f x) ` A" by auto
  qed
  then show ?thesis using False by simp
qed

lemma Max_image_times:
  fixes f :: "'a \<Rightarrow> real"
  assumes "finite A" "A \<noteq> {}"
  shows "Max ((\<lambda>x. s * f x) ` A) = (if 0 \<le> s then s * Max (f ` A) else s * Min (f ` A))"
proof (cases "0 \<le> s")
  case True
  have "Max ((\<lambda>x. s * f x) ` A) = s * Max (f ` A)"
  proof (rule Max_eqI)
    show "finite ((\<lambda>x. s * f x) ` A)" using assms by simp
    show "y \<le> s * Max (f ` A)" if "y \<in> (\<lambda>x. s * f x) ` A" for y
    proof -
      from that obtain x where x: "x \<in> A" "y = s * f x" by auto
      have "f x \<le> Max (f ` A)" using assms x by simp
      then show ?thesis using True x by (simp add: mult_left_mono)
    qed
    have "Max (f ` A) \<in> f ` A" using assms by (intro Max_in) auto
    then show "s * Max (f ` A) \<in> (\<lambda>x. s * f x) ` A" by auto
  qed
  then show ?thesis using True by simp
next
  case False
  have "Max ((\<lambda>x. s * f x) ` A) = s * Min (f ` A)"
  proof (rule Max_eqI)
    show "finite ((\<lambda>x. s * f x) ` A)" using assms by simp
    show "y \<le> s * Min (f ` A)" if "y \<in> (\<lambda>x. s * f x) ` A" for y
    proof -
      from that obtain x where x: "x \<in> A" "y = s * f x" by auto
      have "Min (f ` A) \<le> f x" using assms x by simp
      then show ?thesis using False x by (simp add: mult_left_mono_neg)
    qed
    have "Min (f ` A) \<in> f ` A" using assms by (intro Min_in) auto
    then show "s * Min (f ` A) \<in> (\<lambda>x. s * f x) ` A" by auto
  qed
  then show ?thesis using False by simp
qed

section \<open>Transforms are baked\<close>

lemma identity_transform_apply: "identity_transform (transform_apply E b)"
  by (simp add: identity_transform_def transform_apply_def request_def)

lemma vertices_transform_apply:
  "vertices (data (transform_apply E b)) = map (transform_point E b) (vertices (data b))"
  by (simp add: transform_apply_def request_def)

lemma transform_point_identity:
  "engine_ok E \<Longrightarrow> bo_location b = (0, 0, 0) \<Longrightarrow> bo_rotation_euler b = (0, 0, 0) \<Longrightarrow>
   bo_rotation_quaternion b = (1, 0, 0, 0) \<Longrightarrow>
   transform_point E b v = vmul (bo_scale b) v"
  by (simp add: transform_point_def engine_ok_def vadd_def vmul_def)

section \<open>Measurements under scaling and translation\<close>

lemma identity_transform_request [simp]: "identity_transform (request c b) = identity_transform b"
  by (simp add: identity_transform_def request_def)

lemma identity_transform_on_mesh [simp]: "identity_transform (on_mesh f b) = identity_transform b"
  by (simp add: identity_transform_def on_mesh_def)

lemma identity_transform_new_object [simp]: "identity_transform (new_object c m)"
  by (simp add: identity_transform_def new_object_def)

lemma identity_transform_scale [simp]: "identity_transform (scale E sv b)"
  by (simp add: scale_def Let_def apply_all_transforms_def identity_transform_apply)

lemma identity_transform_translate [simp]: "identity_transform (translate E t b)"
  by (simp add: translate_def apply_all_transforms_def identity_transform_apply)

lemma identity_transform_rotate [simp]: "identity_transform (rotate E e q b)"
  by (simp add: rotate_def Let_def apply_all_transforms_def identity_transform_apply)

lemma vertices_request [simp]: "vertices (data (request c b)) = vertices (data b)"
  by (simp add: request_def)

lemma vertices_scale:
  assumes "engine_ok E" "identity_transform b"
  shows "vertices (data (scale E (Scalar s) b)) = map (vsmul s) (vertices (data b))"
proof -
  have r: "eng_rotation E m (0, 0, 0) (1, 0, 0, 0) v = v" for m v
    using assms(1) unfolding engine_ok_def by blast
  have "transform_point E (request (Set_scale (s, s, s)) (b\<lparr>bo_scale := (s, s, s)\<rparr>)) v
        = vsmul s v" for v
    using assms(2)
    by (simp add: transform_point_def identity_transform_def request_def r
        vadd_def vmul_def vsmul_def)
  then show ?thesis
    by (simp add: scale_def Let_def apply_all_transforms_def vertices_transform_apply)
qed

lemma vertices_translate:
  assumes "engine_ok E" "identity_transform b"
  shows "vertices (data (translate E t b)) = map (\<lambda>v. vadd v t) (vertices (data b))"
proof -
  have r: "eng_rotation E m (0, 0, 0) (1, 0, 0, 0) v = v" for m v
    using assms(1) unfolding engine_ok_def by blast
  have o: "vmul (1, 1, 1) v = v" for v
    by (simp add: vmul_def vx_def vy_def vz_def)
  have "transform_point E (request (Set_location t) (b\<lparr>bo_location := t\<rparr>)) v = vadd v t"
    for v
    using assms(2)
    by (simp add: transform_point_def identity_transform_def request_def r o vadd_def)
  then show ?thesis
    by (simp add: translate_def apply_all_transforms_def vertices_transform_apply)
qed

lemma dimensions_identity:
  "identity_transform b \<Longrightarrow> dimensions b = vsub (bound_max b) (bound_min b)"
  by (simp add: dimensions_def identity_transform_def vabs_def vmul_def vsub_def)

lemma bounding_box_0: "bounding_box b ! 0 = bound_min b"
  by (simp add: bounding_box_def Let_def vx_def vy_def vz_def)

lemma location_identity:
  "identity_transform b \<Longrightarrow> location b = vsmul (1 / 2) (vadd (bound_min b) (bound_max b))"
  by (simp add: location_def bounding_box_0 dimensions_identity vadd_def vsub_def vsmul_def
      field_simps)

lemma bound_min_scaled:
  assumes "vertices (data b2) = map (vsmul s) (vertices (data b))" "vertices (data b) \<noteq> []"
  shows "bound_min b2 = (if 0 \<le> s then vsmul s (bound_min b) else vsmul s (bound_max b))"
proof -
  have i: "vx ` vsmul s ` A = (\<lambda>v. s * vx v) ` A" "vy ` vsmul s ` A = (\<lambda>v. s * vy v) ` A"
    "vz ` vsmul s ` A = (\<lambda>v. s * vz v) ` A" for A
    by (auto simp: vsmul_def image_image)
  have f: "finite (set (vertices (data b)))" "set (vertices (data b)) \<noteq> {}"
    using assms(2) by auto
  have "bound_min b2
        = (Min ((\<lambda>v. s * vx v) ` set (vertices (data b))),
           Min ((\<lambda>v. s * vy v) ` set (vertices (data b))),
           Min ((\<lambda>v. s * vz v) ` set (vertices (data b))))"
    by (simp add: bound_min_def assms(1) i)
  then show ?thesis
    by (simp add: Min_image_times [OF f] bound_min_def bound_max_def vsmul_def)
qed

lemma bound_max_scaled:
  assumes "vertices (data b2) = map (vsmul s) (vertices (data b))" "vertices (data b) \<noteq> []"
  shows "bound_max b2 = (if 0 \<le> s then vsmul s (bound_max b) else vsmul s (bound_min b))"
proof -
  have i: "vx ` vsmul s ` A = (\<lambda>v. s * vx v) ` A" "vy ` vsmul s ` A = (\<lambda>v. s * vy v) ` A"
    "vz ` vsmul s ` A = (\<lambda>v. s * vz v) ` A" for A
    by (auto simp: vsmul_def image_image)
  have f: "finite (set (vertices (data b)))" "set (vertices (data b)) \<noteq> {}"
    using assms(2) by auto
  have "bound_max b2
        = (Max ((\<lambda>v. s * vx v) ` set (vertices (data b))),
           Max ((\<lambda>v. s * vy v) ` set (vertices (data b))),
           Max ((\<lambda>v. s * vz v) ` set (vertices (data b))))"
    by (simp add: bound_max_def assms(1) i)
  then show ?thesis
    by (simp add: Max_image_times [OF f] bound_min_def bound_max_def vsmul_def)
qed

lemma dimensions_scaled:
  assumes "vertices (data b2) = map (vsmul s) (vertices (data b))" "vertices (data b) \<noteq> []"
    "identity_transform b" "identity_transform b2"
  shows "dimensions b2 = vsmul \<bar>s\<bar> (dimensions b)"
  by (simp add: dimensions_identity assms(3,4) bound_min_scaled [OF assms(1,2)]
      bound_max_scaled [OF assms(1,2)] vsub_def vsmul_def algebra_simps)

lemma location_scaled:
  assumes "vertices (data b2) = map (vsmul s) (vertices (data b))" "vertices (data b) \<noteq> []"
    "identity_transform b" "identity_transform b2"
  shows "location b2 = vsmul s (location b)"
  by (simp add: location_identity assms(3,4) bound_min_scaled [OF assms(1,2)]
      bound_max_scaled [OF assms(1,2)] vadd_def vsmul_def algebra_simps)

lemma enclosing_sphere_diameter_scaled:
  assumes "vertices (data b2) = map (vsmul s) (vertices (data b))"
    "identity_transform b" "identity_transform b2"
  shows "enclosing_sphere_diameter b2
         = map_sum id (\<lambda>d. \<bar>s\<bar> * d) (enclosing_sphere_diameter b)"
proof (cases "vertices (data b) = []")
  case True
  then show ?thesis by (simp add: enclosing_sphere_diameter_def assms(1))
next
  case False
  let ?vs = "vertices (data b)"
  let ?f = "\<lambda>v. vlength (vsub v (location b))"
  have loc: "location b2 = vsmul s (location b)"
    by (rule location_scaled [OF assms(1) False assms(2,3)])
  have d: "vlength (vsub (vsmul s v) (location b2)) = \<bar>s\<bar> * ?f v" for v
    by (simp add: loc vsub_vsmul vlength_vsmul)
  have f: "finite (set ?vs)" "set ?vs \<noteq> {}" using False by auto
  have "Max ((\<lambda>v. \<bar>s\<bar> * ?f v) ` set ?vs) = \<bar>s\<bar> * Max (?f ` set ?vs)"
    using Max_image_times [OF f, of "\<bar>s\<bar>" ?f] by simp
  then show ?thesis
    using False
    by (simp add: enclosing_sphere_diameter_def assms(1) d image_image o_def)
qed

text \<open>
  C9. After every translate, rotate or scale of a Geometric Object the object's local
  transform (location, rotation, scale) is back at the identity, whatever it was
  before, and the vertices are the images of the old vertices under the transform
  that was pending when apply_all_transforms ran: the location, rotation or scale
  just written together with the rest of the object's local transform.
\<close>

theorem transforms_are_baked:
  "identity_transform (translate E t b) \<and>
   identity_transform (rotate E euler_angles quaternion b) \<and>
   identity_transform (scale E sv b) \<and>
   vertices (data (translate E t b))
     = map (transform_point E (b\<lparr>bo_location := t\<rparr>)) (vertices (data b)) \<and>
   vertices (data (rotate E (Some e) quaternion b))
     = map (transform_point E
              (set_rotation_mode E (bo_rotation_mode b)
                 ((set_rotation_mode E XYZ b)\<lparr>bo_rotation_euler := e\<rparr>)))
         (vertices (data b)) \<and>
   vertices (data (rotate E None (Some q) b))
     = map (transform_point E
              (set_rotation_mode E (bo_rotation_mode b)
                 ((set_rotation_mode E QUATERNION b)\<lparr>bo_rotation_quaternion := q\<rparr>)))
         (vertices (data b)) \<and>
   vertices (data (rotate E None None b)) = map (transform_point E b) (vertices (data b)) \<and>
   vertices (data (scale E (Scalar s) b))
     = map (transform_point E (b\<lparr>bo_scale := (s, s, s)\<rparr>)) (vertices (data b)) \<and>
   vertices (data (scale E (Triple v) b))
     = map (transform_point E (b\<lparr>bo_scale := v\<rparr>)) (vertices (data b))"
proof -
  have tp: "transform_point E (request c x) = transform_point E x" for c x
    by (rule ext) (simp add: transform_point_def request_def)
  have rq: "vertices (data (request c x)) = vertices (data x)" for c x
    by (simp add: request_def)
  have sm: "vertices (data (set_rotation_mode E m x)) = vertices (data x)" for m x
    by (simp add: set_rotation_mode_def request_def)
  have "identity_transform (translate E t b)"
    by (simp add: translate_def apply_all_transforms_def identity_transform_apply)
  moreover have "identity_transform (rotate E euler_angles quaternion b)"
    by (simp add: rotate_def Let_def apply_all_transforms_def identity_transform_apply)
  moreover have "identity_transform (scale E sv b)"
    by (simp add: scale_def Let_def apply_all_transforms_def identity_transform_apply)
  moreover have "vertices (data (translate E t b))
      = map (transform_point E (b\<lparr>bo_location := t\<rparr>)) (vertices (data b))"
    by (simp add: translate_def apply_all_transforms_def vertices_transform_apply tp rq)
  moreover have "vertices (data (rotate E (Some e) quaternion b))
      = map (transform_point E
               (set_rotation_mode E (bo_rotation_mode b)
                  ((set_rotation_mode E XYZ b)\<lparr>bo_rotation_euler := e\<rparr>)))
          (vertices (data b))"
    by (simp add: rotate_def Let_def apply_all_transforms_def vertices_transform_apply
        transform_point_def set_rotation_mode_def request_def)
  moreover have "vertices (data (rotate E None (Some q) b))
      = map (transform_point E
               (set_rotation_mode E (bo_rotation_mode b)
                  ((set_rotation_mode E QUATERNION b)\<lparr>bo_rotation_quaternion := q\<rparr>)))
          (vertices (data b))"
    by (simp add: rotate_def Let_def apply_all_transforms_def vertices_transform_apply
        transform_point_def set_rotation_mode_def request_def)
  moreover have "vertices (data (rotate E None None b))
      = map (transform_point E b) (vertices (data b))"
    by (simp add: rotate_def Let_def apply_all_transforms_def vertices_transform_apply
        transform_point_def set_rotation_mode_def request_def)
  moreover have "vertices (data (scale E (Scalar s) b))
      = map (transform_point E (b\<lparr>bo_scale := (s, s, s)\<rparr>)) (vertices (data b))"
    by (simp add: scale_def Let_def apply_all_transforms_def vertices_transform_apply tp rq)
  moreover have "vertices (data (scale E (Triple v) b))
      = map (transform_point E (b\<lparr>bo_scale := v\<rparr>)) (vertices (data b))"
    by (simp add: scale_def Let_def apply_all_transforms_def vertices_transform_apply tp rq)
  ultimately show ?thesis by blast
qed

text \<open>
  C10 as amended. For every Geometric Object with at least one vertex whose transform is
  baked and every scalar s, scale(s) is scale((s, s, s)), every vertex coordinate is
  multiplied by s, and the dimensions and the enclosing-sphere diameter are multiplied
  by the absolute value of s (by s itself when s is not negative). On an object
  without vertices the diameter raises ValueError before and after.
\<close>

theorem scale_scalar_uniform:
  assumes "engine_ok E" "identity_transform b" "vertices (data b) \<noteq> []"
  shows "scale E (Scalar s) b = scale E (Triple (s, s, s)) b \<and>
         vertices (data (scale E (Scalar s) b)) = map (vsmul s) (vertices (data b)) \<and>
         dimensions (scale E (Scalar s) b) = vsmul \<bar>s\<bar> (dimensions b) \<and>
         enclosing_sphere_diameter (scale E (Scalar s) b)
           = map_sum id (\<lambda>d. \<bar>s\<bar> * d) (enclosing_sphere_diameter b)"
proof -
  have v: "vertices (data (scale E (Scalar s) b)) = map (vsmul s) (vertices (data b))"
    by (rule vertices_scale [OF assms(1,2)])
  have i: "identity_transform (scale E (Scalar s) b)" by simp
  have "scale E (Scalar s) b = scale E (Triple (s, s, s)) b"
    by (simp add: scale_def)
  moreover note v
  moreover have "dimensions (scale E (Scalar s) b) = vsmul \<bar>s\<bar> (dimensions b)"
    by (rule dimensions_scaled [OF v assms(3,2) i])
  moreover have "enclosing_sphere_diameter (scale E (Scalar s) b)
      = map_sum id (\<lambda>d. \<bar>s\<bar> * d) (enclosing_sphere_diameter b)"
    by (rule enclosing_sphere_diameter_scaled [OF v assms(2) i])
  ultimately show ?thesis by blast
qed

lemma engine_ok_test_engine: "engine_ok test_engine"
  by (simp add: engine_ok_def test_engine_def)

lemma vertices_test_cube_object:
  "vertices (data test_cube_object)
   = [(- 1 / 2, - 1 / 2, - 1 / 2), (- 1 / 2, - 1 / 2, 1 / 2), (- 1 / 2, 1 / 2, - 1 / 2),
      (- 1 / 2, 1 / 2, 1 / 2), (1 / 2, - 1 / 2, - 1 / 2), (1 / 2, - 1 / 2, 1 / 2),
      (1 / 2, 1 / 2, - 1 / 2), (1 / 2, 1 / 2, 1 / 2)]"
  by (simp add: test_cube_object_def new_object_def test_engine_def test_cube_def test_mesh_def)

lemma identity_test_cube_object: "identity_transform test_cube_object"
  by (simp add: test_cube_object_def)

lemma dimensions_test_cube_object: "dimensions test_cube_object = (1, 1, 1)"
  by (simp add: dimensions_identity identity_test_cube_object bound_min_def bound_max_def
      vertices_test_cube_object vsub_def)

theorem scale_scalar_uniform_witness:
  "engine_ok test_engine \<and> identity_transform test_cube_object \<and>
   vertices (data test_cube_object) \<noteq> [] \<and>
   dimensions (scale test_engine (Scalar 2) test_cube_object) = (2, 2, 2)"
proof -
  have v: "vertices (data test_cube_object) \<noteq> []"
    by (simp add: vertices_test_cube_object)
  from scale_scalar_uniform [OF engine_ok_test_engine identity_test_cube_object v, of 2]
  have "dimensions (scale test_engine (Scalar 2) test_cube_object)
        = vsmul \<bar>2\<bar> (dimensions test_cube_object)"
    by blast
  then show ?thesis
    using v by (simp add: engine_ok_test_engine identity_test_cube_object
        dimensions_test_cube_object vsmul_def)
qed

text \<open>
  C10 as stated fails for a negative scalar: scaling the unit cube by -1 leaves its
  dimensions (1, 1, 1), which is not -1 times (1, 1, 1).
\<close>

theorem scale_negative_counterexample:
  "dimensions (scale test_engine (Scalar (- 1)) test_cube_object)
   \<noteq> vsmul (- 1) (dimensions test_cube_object)"
proof -
  have v: "vertices (data test_cube_object) \<noteq> []"
    by (simp add: vertices_test_cube_object)
  have "dimensions (scale test_engine (Scalar (- 1)) test_cube_object)
        = vsmul \<bar>- 1\<bar> (dimensions test_cube_object)"
    by (rule dimensions_scaled
        [OF vertices_scale [OF engine_ok_test_engine identity_test_cube_object] v
          identity_test_cube_object identity_transform_scale])
  then show ?thesis
    by (simp add: dimensions_test_cube_object vsmul_def)
qed

section \<open>Random placement\<close>

lemma uniform_between:
  fixes lo hi u :: real
  assumes "lo \<le> hi" "0 \<le> u" "u < 1"
  shows "lo \<le> lo + (hi - lo) * u" "lo + (hi - lo) * u \<le> hi"
proof -
  have "0 \<le> (hi - lo) * u" using assms by simp
  then show "lo \<le> lo + (hi - lo) * u" by simp
  have "(hi - lo) * u \<le> (hi - lo) * 1"
    using assms by (intro mult_left_mono) auto
  then show "lo + (hi - lo) * u \<le> hi" by simp
qed

lemma np_uniform3_between:
  assumes "unit_draws r" "vx lo \<le> vx hi" "vy lo \<le> vy hi" "vz lo \<le> vz hi"
  shows "shift_between lo hi (fst (np_uniform3 lo hi r))"
  using assms
  by (simp add: shift_between_def np_uniform3_def unit_draws_def uniform_between)

lemma unit_draws_np_uniform3: "unit_draws (snd (np_uniform3 lo hi r)) = unit_draws r"
  by (simp add: np_uniform3_def unit_draws_def)

lemma redraw_shift_accepted:
  assumes "redraw_shift fits lo hi s r = Some y"
  shows "unit_draws r \<longrightarrow> vx lo \<le> vx hi \<longrightarrow> vy lo \<le> vy hi \<longrightarrow> vz lo \<le> vz hi \<longrightarrow>
         shift_between lo hi s \<longrightarrow> shift_between lo hi (fst y) \<and> fits (fst y)"
proof -
  let ?P = "\<lambda>fits lo hi s r y. unit_draws r \<longrightarrow> vx lo \<le> vx hi \<longrightarrow> vy lo \<le> vy hi \<longrightarrow>
      vz lo \<le> vz hi \<longrightarrow> shift_between lo hi s \<longrightarrow> shift_between lo hi (fst y) \<and> fits (fst y)"
  have "?P fits lo hi s r y"
  proof (rule redraw_shift.raw_induct [where P = ?P, OF _ assms])
    fix redraw fits lo hi s r y
    assume IH: "\<And>fits lo hi s r y. redraw fits lo hi s r = Some y \<Longrightarrow> ?P fits lo hi s r y"
      and body: "(if fits s then Some (s, r)
                  else redraw fits lo hi (fst (np_uniform3 lo hi r))
                         (snd (np_uniform3 lo hi r))) = Some y"
    show "?P fits lo hi s r y"
    proof (cases "fits s")
      case True
      with body show ?thesis by auto
    next
      case False
      with body have "redraw fits lo hi (fst (np_uniform3 lo hi r))
          (snd (np_uniform3 lo hi r)) = Some y" by simp
      from IH [OF this] show ?thesis
        by (auto simp: unit_draws_np_uniform3 np_uniform3_between)
    qed
  qed
  then show ?thesis .
qed

lemma Min_image_plus:
  fixes f :: "'a \<Rightarrow> real"
  assumes "finite A" "A \<noteq> {}"
  shows "Min ((\<lambda>x. f x + c) ` A) = Min (f ` A) + c"
proof -
  have "mono (\<lambda>x::real. x + c)" by (simp add: mono_def)
  from mono_Min_commute [OF this, of "f ` A"] assms
  show ?thesis by (simp add: image_image)
qed

lemma Max_image_plus:
  fixes f :: "'a \<Rightarrow> real"
  assumes "finite A" "A \<noteq> {}"
  shows "Max ((\<lambda>x. f x + c) ` A) = Max (f ` A) + c"
proof -
  have "mono (\<lambda>x::real. x + c)" by (simp add: mono_def)
  from mono_Max_commute [OF this, of "f ` A"] assms
  show ?thesis by (simp add: image_image)
qed

lemma bounds_translated:
  assumes "vertices (data b2) = map (\<lambda>v. vadd v t) (vertices (data b))"
    "vertices (data b) \<noteq> []"
  shows "bound_min b2 = vadd (bound_min b) t" "bound_max b2 = vadd (bound_max b) t"
proof -
  have i: "vx ` (\<lambda>v. vadd v t) ` A = (\<lambda>v. vx v + vx t) ` A"
    "vy ` (\<lambda>v. vadd v t) ` A = (\<lambda>v. vy v + vy t) ` A"
    "vz ` (\<lambda>v. vadd v t) ` A = (\<lambda>v. vz v + vz t) ` A" for A
    by (auto simp: vadd_def image_image)
  have f: "finite (set (vertices (data b)))" "set (vertices (data b)) \<noteq> {}"
    using assms(2) by auto
  have "bound_min b2
        = (Min ((\<lambda>v. vx v + vx t) ` set (vertices (data b))),
           Min ((\<lambda>v. vy v + vy t) ` set (vertices (data b))),
           Min ((\<lambda>v. vz v + vz t) ` set (vertices (data b))))"
    by (simp add: bound_min_def assms(1) i)
  then show "bound_min b2 = vadd (bound_min b) t"
    by (simp add: Min_image_plus [OF f] bound_min_def vadd_def)
  have "bound_max b2
        = (Max ((\<lambda>v. vx v + vx t) ` set (vertices (data b))),
           Max ((\<lambda>v. vy v + vy t) ` set (vertices (data b))),
           Max ((\<lambda>v. vz v + vz t) ` set (vertices (data b))))"
    by (simp add: bound_max_def assms(1) i)
  then show "bound_max b2 = vadd (bound_max b) t"
    by (simp add: Max_image_plus [OF f] bound_max_def vadd_def)
qed

lemma shift_range_identity:
  assumes "identity_transform b"
  shows "vsub lo (vsub (location b) (vsmul (1 / 2) (dimensions b))) = vsub lo (bound_min b)"
    "vsub hi (vadd (location b) (vsmul (1 / 2) (dimensions b))) = vsub hi (bound_max b)"
  by (simp_all add: location_identity dimensions_identity assms vadd_def vsub_def vsmul_def
      field_simps)

lemma position_randomly_shift:
  assumes p: "position_randomly E (x_min, x_max, y_min, y_max, z_min, z_max) fit_in_cylinder r b
              = Some (b', shift, r')"
    and i: "identity_transform b" and u: "unit_draws r"
    and o: "vx (vsub (x_min, y_min, z_min) (bound_min b))
              \<le> vx (vsub (x_max, y_max, z_max) (bound_max b))"
      "vy (vsub (x_min, y_min, z_min) (bound_min b))
              \<le> vy (vsub (x_max, y_max, z_max) (bound_max b))"
      "vz (vsub (x_min, y_min, z_min) (bound_min b))
              \<le> vz (vsub (x_max, y_max, z_max) (bound_max b))"
  shows "b' = translate E shift b \<and>
         shift_between (vsub (x_min, y_min, z_min) (bound_min b))
           (vsub (x_max, y_max, z_max) (bound_max b)) shift \<and>
         (fit_in_cylinder \<longrightarrow>
            objects_fits_in_cylinder ((y_min + y_max) / 2, (z_min + z_max) / 2)
              (max (y_max - y_min) (z_max - z_min)) b shift)"
proof -
  let ?lo = "vsub (x_min, y_min, z_min) (bound_min b)"
  let ?hi = "vsub (x_max, y_max, z_max) (bound_max b)"
  let ?fits = "objects_fits_in_cylinder ((y_min + y_max) / 2, (z_min + z_max) / 2)
                 (max (y_max - y_min) (z_max - z_min)) b"
  have s0: "shift_between ?lo ?hi (fst (np_uniform3 ?lo ?hi r))"
    by (rule np_uniform3_between [OF u o])
  show ?thesis
  proof (cases fit_in_cylinder)
    case False
    with p have "b' = translate E (fst (np_uniform3 ?lo ?hi r)) b"
      "shift = fst (np_uniform3 ?lo ?hi r)"
      by (auto simp: position_randomly_def Let_def shift_range_identity [OF i])
    with s0 False show ?thesis by simp
  next
    case True
    with p obtain y where
      y: "redraw_shift ?fits ?lo ?hi (fst (np_uniform3 ?lo ?hi r)) (snd (np_uniform3 ?lo ?hi r))
          = Some y"
      and r: "b' = translate E (fst y) b" "shift = fst y"
      by (auto simp: position_randomly_def Let_def shift_range_identity [OF i]
          split: option.splits)
    from redraw_shift_accepted [OF y] u o s0
    have "shift_between ?lo ?hi (fst y) \<and> ?fits (fst y)"
      by (simp add: unit_draws_np_uniform3)
    with r show ?thesis by simp
  qed
qed

text \<open>
  C2. For every object (with a vertex, its transform baked) whose dimensions do not
  exceed the extents of the supplied box on any axis, and for every result that
  position_randomly returns on draws from the unit interval: the object was translated by
  the returned shift, the translated object's bounding box lies inside the supplied
  box, and with fit_in_cylinder every vertex's (y, z) lies strictly inside the circle of
  radius max(y_max - y_min, z_max - z_min) about ((y_min + y_max)/2, (z_min + z_max)/2).
\<close>

theorem position_randomly_contained:
  assumes "position_randomly E (x_min, x_max, y_min, y_max, z_min, z_max) fit_in_cylinder r b
           = Some (b', shift, r')"
    and "engine_ok E" and "identity_transform b" and "vertices (data b) \<noteq> []"
    and "unit_draws r"
    and "vx (dimensions b) \<le> x_max - x_min" and "vy (dimensions b) \<le> y_max - y_min"
    and "vz (dimensions b) \<le> z_max - z_min"
  shows "b' = translate E shift b \<and>
         vertices (data b') = map (\<lambda>v. vadd v shift) (vertices (data b)) \<and>
         x_min \<le> vx (bound_min b') \<and> vx (bound_max b') \<le> x_max \<and>
         y_min \<le> vy (bound_min b') \<and> vy (bound_max b') \<le> y_max \<and>
         z_min \<le> vz (bound_min b') \<and> vz (bound_max b') \<le> z_max \<and>
         (fit_in_cylinder \<longrightarrow>
            list_all (point_fits_in_cylinder ((y_min + y_max) / 2, (z_min + z_max) / 2)
                        (max (y_max - y_min) (z_max - z_min)))
              (vertices (data b')))"
proof -
  have d: "dimensions b = vsub (bound_max b) (bound_min b)"
    by (rule dimensions_identity [OF assms(3)])
  have o: "vx (vsub (x_min, y_min, z_min) (bound_min b))
              \<le> vx (vsub (x_max, y_max, z_max) (bound_max b))"
      "vy (vsub (x_min, y_min, z_min) (bound_min b))
              \<le> vy (vsub (x_max, y_max, z_max) (bound_max b))"
      "vz (vsub (x_min, y_min, z_min) (bound_min b))
              \<le> vz (vsub (x_max, y_max, z_max) (bound_max b))"
    using assms(6,7,8) by (simp_all add: d vsub_def)
  from position_randomly_shift [OF assms(1,3,5) o]
  have b': "b' = translate E shift b"
    and sb: "shift_between (vsub (x_min, y_min, z_min) (bound_min b))
               (vsub (x_max, y_max, z_max) (bound_max b)) shift"
    and fc: "fit_in_cylinder \<longrightarrow>
               objects_fits_in_cylinder ((y_min + y_max) / 2, (z_min + z_max) / 2)
                 (max (y_max - y_min) (z_max - z_min)) b shift"
    by blast+
  have v: "vertices (data b') = map (\<lambda>v. vadd v shift) (vertices (data b))"
    unfolding b' by (rule vertices_translate [OF assms(2,3)])
  have bm: "bound_min b' = vadd (bound_min b) shift" "bound_max b' = vadd (bound_max b) shift"
    by (rule bounds_translated [OF v assms(4)])+
  have box: "x_min \<le> vx (bound_min b') \<and> vx (bound_max b') \<le> x_max \<and>
         y_min \<le> vy (bound_min b') \<and> vy (bound_max b') \<le> y_max \<and>
         z_min \<le> vz (bound_min b') \<and> vz (bound_max b') \<le> z_max"
    using sb by (simp add: bm shift_between_def vadd_def vsub_def)
  have cyl: "fit_in_cylinder \<longrightarrow>
            list_all (point_fits_in_cylinder ((y_min + y_max) / 2, (z_min + z_max) / 2)
                        (max (y_max - y_min) (z_max - z_min)))
              (vertices (data b'))"
    using fc by (simp add: v objects_fits_in_cylinder_def list_all_iff)
  from b' v box cyl show ?thesis by blast
qed

lemma point_fits_in_cylinder_iff:
  assumes "0 < rad"
  shows "point_fits_in_cylinder a rad p
         \<longleftrightarrow> (vy p - fst a) * (vy p - fst a) + (vz p - snd a) * (vz p - snd a) < rad * rad"
proof -
  have "sqrt ((vy p - fst a) * (vy p - fst a) + (vz p - snd a) * (vz p - snd a)) < rad
        \<longleftrightarrow> sqrt ((vy p - fst a) * (vy p - fst a) + (vz p - snd a) * (vz p - snd a))
            < sqrt (rad * rad)"
    using assms by simp
  then show ?thesis
    unfolding point_fits_in_cylinder_def by (simp only: real_sqrt_less_iff)
qed

lemma bounds_test_cube_object:
  "bound_min test_cube_object = (- 1 / 2, - 1 / 2, - 1 / 2)"
  "bound_max test_cube_object = (1 / 2, 1 / 2, 1 / 2)"
  by (simp_all add: bound_min_def bound_max_def vertices_test_cube_object)

lemma unit_draws_half_draws: "unit_draws half_draws"
  by (simp add: unit_draws_def half_draws_def)

lemma position_test_cube_object:
  "position_randomly test_engine (- 1, 1, - 1, 1, - 1, 1) True half_draws test_cube_object
   = Some (translate test_engine (0, 0, 0) test_cube_object, (0, 0, 0),
           half_draws\<lparr>np_next := 3\<rparr>)"
proof -
  have s: "np_uniform3 (- (1 / 2), - (1 / 2), - (1 / 2)) (1 / 2, 1 / 2, 1 / 2) half_draws
           = ((0, 0, 0), half_draws\<lparr>np_next := 3\<rparr>)"
    by (simp add: np_uniform3_def half_draws_def)
  have f: "objects_fits_in_cylinder (0, 0) 2 test_cube_object (0, 0, 0)"
    by (simp add: objects_fits_in_cylinder_def vertices_test_cube_object
        point_fits_in_cylinder_iff vadd_def)
  have r: "redraw_shift (objects_fits_in_cylinder (0, 0) 2 test_cube_object)
             (- (1 / 2), - (1 / 2), - (1 / 2)) (1 / 2, 1 / 2, 1 / 2) (0, 0, 0)
             (half_draws\<lparr>np_next := 3\<rparr>)
           = Some ((0, 0, 0), half_draws\<lparr>np_next := 3\<rparr>)"
    by (subst redraw_shift.simps) (simp only: f if_True)
  have lo: "vsub (- 1, - 1, - 1)
              (vsub (location test_cube_object) (vsmul (1 / 2) (dimensions test_cube_object)))
            = (- (1 / 2), - (1 / 2), - (1 / 2))"
    by (subst shift_range_identity(1) [OF identity_test_cube_object])
      (simp add: bounds_test_cube_object vsub_def)
  have hi: "vsub (1, 1, 1)
              (vadd (location test_cube_object) (vsmul (1 / 2) (dimensions test_cube_object)))
            = (1 / 2, 1 / 2, 1 / 2)"
    by (subst shift_range_identity(2) [OF identity_test_cube_object])
      (simp add: bounds_test_cube_object vsub_def)
  show ?thesis
    by (simp add: position_randomly_def Let_def lo hi s r)
qed

theorem position_randomly_contained_witness:
  "position_randomly test_engine (- 1, 1, - 1, 1, - 1, 1) True half_draws test_cube_object
     = Some (translate test_engine (0, 0, 0) test_cube_object, (0, 0, 0),
             half_draws\<lparr>np_next := 3\<rparr>) \<and>
   engine_ok test_engine \<and> identity_transform test_cube_object \<and>
   vertices (data test_cube_object) \<noteq> [] \<and> unit_draws half_draws \<and>
   vx (dimensions test_cube_object) \<le> 1 - (- 1) \<and>
   vy (dimensions test_cube_object) \<le> 1 - (- 1) \<and>
   vz (dimensions test_cube_object) \<le> 1 - (- 1) \<and>
   - 1 \<le> vx (bound_min (translate test_engine (0, 0, 0) test_cube_object)) \<and>
   vx (bound_max (translate test_engine (0, 0, 0) test_cube_object)) \<le> 1 \<and>
   list_all (point_fits_in_cylinder ((- 1 + 1) / 2, (- 1 + 1) / 2) (max (1 - (- 1)) (1 - (- 1))))
     (vertices (data (translate test_engine (0, 0, 0) test_cube_object)))"
proof -
  have v: "vertices (data test_cube_object) \<noteq> []"
    by (simp add: vertices_test_cube_object)
  have d: "vx (dimensions test_cube_object) \<le> 1 - (- 1)"
    "vy (dimensions test_cube_object) \<le> 1 - (- 1)"
    "vz (dimensions test_cube_object) \<le> 1 - (- 1)"
    by (simp_all add: dimensions_test_cube_object)
  from position_randomly_contained [OF position_test_cube_object engine_ok_test_engine
      identity_test_cube_object v unit_draws_half_draws d]
  show ?thesis
    using position_test_cube_object engine_ok_test_engine identity_test_cube_object v
      unit_draws_half_draws d
    by blast
qed

section \<open>What the recipes ask of the engine\<close>

lemma calls_request [simp]: "calls (request c b) = calls b @ [c]"
  by (simp add: request_def)

lemma data_request [simp]: "data (request c b) = data b"
  by (simp add: request_def)

lemma calls_on_mesh [simp]: "calls (on_mesh f b) = calls b"
  by (simp add: on_mesh_def)

lemma data_on_mesh [simp]: "data (on_mesh f b) = f (data b)"
  by (simp add: on_mesh_def)

lemma calls_new_object [simp]: "calls (new_object c m) = [c]"
  by (simp add: new_object_def)

lemma data_new_object [simp]: "data (new_object c m) = m"
  by (simp add: new_object_def)

lemma calls_scale [simp]:
  "calls (scale E (Scalar f) b) = calls b @ [Set_scale (f, f, f), Transform_apply]"
  "calls (scale E (Triple v) b) = calls b @ [Set_scale v, Transform_apply]"
  by (simp_all add: scale_def Let_def apply_all_transforms_def transform_apply_def
      request_def)

lemma calls_translate [simp]:
  "calls (translate E t b) = calls b @ [Set_location t, Transform_apply]"
  by (simp add: translate_def apply_all_transforms_def transform_apply_def request_def)

lemma calls_mesh_select_all [simp]:
  "calls (mesh_select_all a b) = calls b @ [Mesh_select_all a]"
  by (simp add: mesh_select_all_def)

lemma calls_mesh_select_mode [simp]:
  "calls (mesh_select_mode t b) = calls b @ [Mesh_select_mode t]"
  by (simp add: mesh_select_mode_def)

lemma vertices_mesh_select [simp]:
  "vertices (data (mesh_select_all a b)) = vertices (data b)"
  "vertices (data (mesh_select_mode t b)) = vertices (data b)"
  "edges (data (mesh_select_all a b)) = edges (data b)"
  "edges (data (mesh_select_mode t b)) = edges (data b)"
  by (simp_all add: mesh_select_all_def mesh_select_mode_def)

lemma calls_select_vertices [simp]:
  "calls (select_vertices crit b)
   = calls b @ [Mesh_select_mode VERT, Mesh_select_all DESELECT,
                Set_vertex_select (map crit (vertices (data b)))]"
  by (simp add: select_vertices_def Let_def)

lemma vertices_select_vertices [simp]:
  "vertices (data (select_vertices crit b)) = vertices (data b)"
  by (simp add: select_vertices_def Let_def)

lemma calls_remove_duplicate_vertices [simp]:
  "calls (remove_duplicate_vertices E b) = calls b @ [Mesh_select_all SELECT, Mesh_remove_doubles]"
  by (simp add: remove_duplicate_vertices_def)

lemma calls_apply_bevel_modifier [simp]:
  "calls (apply_bevel_modifier E settings b) = calls b @ [Modifier_bevel settings]"
  by (simp add: apply_bevel_modifier_def)

lemma calls_mesh_bevel [simp]: "calls (mesh_bevel E args b) = calls b @ [Mesh_bevel args]"
  by (simp add: mesh_bevel_def)

lemma calls_extrude_region_move [simp]:
  "calls (extrude_region_move E v b) = calls b @ [Mesh_extrude_region_move v]"
  by (simp add: extrude_region_move_def)

lemma calls_transform_translate [simp]:
  "calls (transform_translate E v b) = calls b @ [Mesh_translate v]"
  by (simp add: transform_translate_def)

lemma calls_transform_resize [simp]:
  "calls (transform_resize E v b) = calls b @ [Mesh_resize v]"
  by (simp add: transform_resize_def)

lemma bind_py_Inr: "bind_py r f = Inr y \<longleftrightarrow> (\<exists>x. r = Inr x \<and> f x = Inr y)"
  by (cases r) (simp_all add: bind_py_def)

lemma collect_is_edge_vertical:
  "collect_py (map (is_edge_vertical vs) es) = Inr sel \<Longrightarrow> sel = map (edge_vertical vs) es"
  by (induction es arbitrary: sel)
    (auto simp: is_edge_vertical_def split: sum.splits if_splits)

lemma select_edges_vertical:
  assumes "select_edges is_edge_vertical b = Inr b'"
  shows "calls b' = calls b @ [Mesh_select_mode EDGE, Mesh_select_all DESELECT,
                               Set_edge_select
                                 (map (edge_vertical (vertices (data b))) (edges (data b)))]"
    and "edge_select (data b') = map (edge_vertical (vertices (data b))) (edges (data b))"
    and "vertices (data b') = vertices (data b)" and "edges (data b') = edges (data b)"
proof -
  from assms obtain sel where
    c: "collect_py (map (is_edge_vertical (vertices (data b))) (edges (data b))) = Inr sel"
    and b': "b' = request (Set_edge_select sel)
                    (on_mesh (\<lambda>m. m\<lparr>edge_select := sel\<rparr>)
                       (mesh_select_all DESELECT (mesh_select_mode EDGE b)))"
    by (auto simp: select_edges_def Let_def bind_py_Inr)
  have sel: "sel = map (edge_vertical (vertices (data b))) (edges (data b))"
    by (rule collect_is_edge_vertical [OF c])
  show "calls b' = calls b @ [Mesh_select_mode EDGE, Mesh_select_all DESELECT,
                               Set_edge_select
                                 (map (edge_vertical (vertices (data b))) (edges (data b)))]"
    by (simp add: b' sel)
  show "edge_select (data b') = map (edge_vertical (vertices (data b))) (edges (data b))"
    by (simp add: b' sel)
  show "vertices (data b') = vertices (data b)"
    by (simp add: b' mesh_select_all_def mesh_select_mode_def)
  show "edges (data b') = edges (data b)"
    by (simp add: b' mesh_select_all_def mesh_select_mode_def)
qed

lemma select_edges_calls_extend:
  "select_edges crit b = Inr b' \<Longrightarrow> \<exists>rest. calls b' = calls b @ rest"
  by (auto simp: select_edges_def Let_def bind_py_Inr)

lemma prism_smooth_tips_calls_extend:
  "prism_smooth_tips E ts k b = Inr b' \<Longrightarrow> \<exists>rest. calls b' = calls b @ rest"
  by (auto simp: prism_smooth_tips_def Let_def bind_py_Inr split: if_splits
      dest!: select_edges_calls_extend)

lemma prism_smooth_edges_calls_extend:
  "prism_smooth_edges E es k b = Inr b' \<Longrightarrow> \<exists>rest. calls b' = calls b @ rest"
  by (auto simp: prism_smooth_edges_def Let_def bind_py_Inr split: if_splits
      dest!: select_edges_calls_extend)

lemma rescale_to_diagonal_calls_extend:
  "rescale_to_diagonal E sz b = Inr b' \<Longrightarrow> \<exists>rest. calls b' = calls b @ rest"
  by (auto simp: rescale_to_diagonal_def bind_py_Inr)

lemma prism_truncate_calls:
  assumes "0 < t" "prism_truncate E t b = Inr b'"
  shows "calls b' = calls b @
           [Mesh_select_mode EDGE, Mesh_select_all DESELECT,
            Set_edge_select (map (edge_vertical (vertices (data b))) (edges (data b))),
            Mesh_bevel \<lparr>ba_affect = None, ba_offset_type = Some PERCENT, ba_offset = None,
                        ba_offset_pct = Some (100 * t / 2), ba_segments = None,
                        ba_clamp_overlap = Some True\<rparr>,
            Mesh_select_all SELECT, Mesh_remove_doubles]"
  using assms
  by (auto simp: prism_truncate_def Let_def bind_py_Inr dest!: select_edges_vertical(1))

lemma basic_Octahedron_calls:
  assumes "0 < t" "basic_Octahedron E sz t = Inr b"
  shows "\<exists>f. calls b =
           [Primitive_cube_add 1,
            Modifier_bevel \<lparr>bm_offset_type = Some PERCENT, bm_width = None,
                            bm_width_pct = Some 100, bm_segments = None\<rparr>,
            Mesh_select_all SELECT, Mesh_remove_doubles,
            Modifier_bevel \<lparr>bm_offset_type = Some PERCENT, bm_width = None,
                            bm_width_pct = Some (100 * t / 3), bm_segments = None\<rparr>,
            Mesh_select_all SELECT, Mesh_remove_doubles,
            Set_scale (f, f, f), Transform_apply]"
  using assms
  by (auto simp: basic_Octahedron_def octahedron_bevels_def Let_def rescale_to_sphere_def
      bind_py_Inr)

lemma basic_Prism_calls:
  assumes "0 < t" "basic_Prism E n sz h t ts es k = Inr b"
  shows "\<exists>rest. calls b =
           [Primitive_cylinder_add n (sz / 2) h,
            Mesh_select_mode EDGE, Mesh_select_all DESELECT,
            Set_edge_select (map (edge_vertical (vertices (eng_cylinder E n (sz / 2) h)))
                               (edges (eng_cylinder E n (sz / 2) h))),
            Mesh_bevel \<lparr>ba_affect = None, ba_offset_type = Some PERCENT, ba_offset = None,
                        ba_offset_pct = Some (100 * t / 2), ba_segments = None,
                        ba_clamp_overlap = Some True\<rparr>,
            Mesh_select_all SELECT, Mesh_remove_doubles] @ rest"
proof -
  let ?b0 = "new_object (Primitive_cylinder_add n (sz / 2) h) (eng_cylinder E n (sz / 2) h)"
  from assms(2) obtain b1 b2 b3 where
    1: "prism_truncate E t ?b0 = Inr b1" and 2: "prism_smooth_tips E ts k b1 = Inr b2"
    and 3: "prism_smooth_edges E es k b2 = Inr b3" and 4: "rescale_to_diagonal E sz b3 = Inr b"
    by (auto simp: basic_Prism_def Let_def bind_py_Inr)
  from prism_smooth_tips_calls_extend [OF 2] prism_smooth_edges_calls_extend [OF 3]
    rescale_to_diagonal_calls_extend [OF 4]
  obtain r2 r3 r4 where "calls b = ((calls b1 @ r2) @ r3) @ r4" by auto
  then show ?thesis
    by (simp add: prism_truncate_calls [OF assms(1) 1])
qed

text \<open>
  C7. When truncation_degree is positive, a returning Octahedron recipe has asked for:
  the cube, the 100% bevel and weld, then a second bevel of offset type PERCENT at
  100 * truncation_degree / 3 followed by the weld, then the rescale; a returning Prism
  recipe has asked, right after its cylinder, for the selection of exactly the edges that
  edge_vertical accepts (both endpoints agree in x and in y within 1e-5), a bevel of
  offset type PERCENT at 100 * truncation_degree / 2, and the weld.
\<close>

theorem truncation_bevels:
  assumes "0 < t"
  shows "(\<forall>b. basic_Octahedron E sz t = Inr b \<longrightarrow>
            (\<exists>f. calls b =
               [Primitive_cube_add 1,
                Modifier_bevel \<lparr>bm_offset_type = Some PERCENT, bm_width = None,
                                bm_width_pct = Some 100, bm_segments = None\<rparr>,
                Mesh_select_all SELECT, Mesh_remove_doubles,
                Modifier_bevel \<lparr>bm_offset_type = Some PERCENT, bm_width = None,
                                bm_width_pct = Some (100 * t / 3), bm_segments = None\<rparr>,
                Mesh_select_all SELECT, Mesh_remove_doubles,
                Set_scale (f, f, f), Transform_apply])) \<and>
         (\<forall>b. basic_Prism E n sz h t ts es k = Inr b \<longrightarrow>
            (\<exists>rest. calls b =
               [Primitive_cylinder_add n (sz / 2) h,
                Mesh_select_mode EDGE, Mesh_select_all DESELECT,
                Set_edge_select (map (edge_vertical (vertices (eng_cylinder E n (sz / 2) h)))
                                   (edges (eng_cylinder E n (sz / 2) h))),
                Mesh_bevel \<lparr>ba_affect = None, ba_offset_type = Some PERCENT,
                            ba_offset = None, ba_offset_pct = Some (100 * t / 2),
                            ba_segments = None, ba_clamp_overlap = Some True\<rparr>,
                Mesh_select_all SELECT, Mesh_remove_doubles] @ rest)) \<and>
         (\<forall>vs i j. edge_vertical vs (i, j) \<longleftrightarrow>
            \<bar>vx (vs ! j) - vx (vs ! i)\<bar> < 1 / 100000 \<and> \<bar>vy (vs ! j) - vy (vs ! i)\<bar> < 1 / 100000)"
  using basic_Octahedron_calls [OF assms] basic_Prism_calls [OF assms]
  by (simp add: edge_vertical_def BLENDER_EPS_def)

lemma vlength_pos:
  assumes "a \<noteq> (0, 0, 0)"
  shows "0 < vlength a"
proof -
  have "vx a \<noteq> 0 \<or> vy a \<noteq> 0 \<or> vz a \<noteq> 0"
    using assms by (cases a) auto
  then have "0 < vx a * vx a + vy a * vy a + vz a * vz a"
    by (metis add_pos_nonneg add_nonneg_pos zero_le_square not_real_square_gt_zero add_nonneg_nonneg)
  then show ?thesis by (simp add: vlength_def)
qed

lemma rescale_to_sphere_returns:
  assumes "v \<in> set (vertices (data b))" "v \<noteq> location b"
  shows "\<exists>b'. rescale_to_sphere E sz b = Inr b'"
proof -
  let ?D = "(\<lambda>v. vlength (vsub v (location b))) ` set (vertices (data b))"
  have "vsub v (location b) \<noteq> (0, 0, 0)"
    using assms(2) by (auto simp: vsub_def intro: vec3_eqI)
  then have "0 < vlength (vsub v (location b))" by (rule vlength_pos)
  moreover have "vlength (vsub v (location b)) \<le> Max ?D"
    using assms(1) by (intro Max_ge) auto
  ultimately have "0 < Max ?D" by linarith
  then show ?thesis
    using assms(1)
    by (auto simp: rescale_to_sphere_def enclosing_sphere_diameter_def Let_def bind_py_def
        py_div_def)
qed

lemma location_cube_vertices:
  assumes "identity_transform b" "vertices (data b) = vertices (data test_cube_object)"
  shows "location b = (0, 0, 0)"
  by (simp add: location_identity [OF assms(1)] bound_min_def bound_max_def assms(2)
      vertices_test_cube_object vadd_def vsmul_def)

lemma vertices_test_octahedron:
  "vertices (data (octahedron_bevels test_engine t)) = vertices (data test_cube_object)"
  by (simp add: octahedron_bevels_def Let_def remove_duplicate_vertices_def
      apply_bevel_modifier_def test_engine_def test_cube_object_def)

lemma identity_test_octahedron: "identity_transform (octahedron_bevels E t)"
  by (simp add: octahedron_bevels_def Let_def remove_duplicate_vertices_def
      apply_bevel_modifier_def mesh_select_all_def)

lemma test_octahedron_returns: "\<exists>b. basic_Octahedron test_engine sz t = Inr b"
  unfolding basic_Octahedron_def
  by (rule rescale_to_sphere_returns [of "(1 / 2, 1 / 2, 1 / 2)"])
    (simp_all add: vertices_test_octahedron vertices_test_cube_object
      location_cube_vertices [OF identity_test_octahedron vertices_test_octahedron])

lemma vertices_test_prism_object:
  "vertices (data test_prism_object)
   = [(0, 1 / 2, - (1 / 10)), (0, 1 / 2, 1 / 10), (1 / 2, 0, - (1 / 10)), (1 / 2, 0, 1 / 10),
      (0, - (1 / 2), - (1 / 10)), (0, - (1 / 2), 1 / 10), (- (1 / 2), 0, - (1 / 10)),
      (- (1 / 2), 0, 1 / 10)]"
  by (simp add: test_prism_object_def basic_Cylinder_def test_engine_def test_cylinder_def
      test_mesh_def)

lemma edges_test_prism_object:
  "edges (data test_prism_object)
   = [(0, 1), (2, 3), (4, 5), (6, 7), (0, 2), (2, 4), (4, 6), (6, 0),
        (1, 3), (3, 5), (5, 7), (7, 1)]"
  by (simp add: test_prism_object_def basic_Cylinder_def test_engine_def test_cylinder_def
      test_mesh_def)

lemma vertical_edges_test_prism_object:
  "map (is_edge_vertical (vertices (data test_prism_object))) (edges (data test_prism_object))
   = map Inr [True, True, True, True, False, False, False, False, False, False, False, False]"
  by (simp add: vertices_test_prism_object edges_test_prism_object is_edge_vertical_def
      edge_vertical_def BLENDER_EPS_def)


lemma select_vertical_test_prism:
  assumes "vertices (data b) = vertices (data test_prism_object)"
    "edges (data b) = edges (data test_prism_object)"
  shows "\<exists>b'. select_edges is_edge_vertical b = Inr b'"
  by (simp add: select_edges_def Let_def assms vertical_edges_test_prism_object bind_py_def)

lemma dimensions_prism_vertices:
  assumes "identity_transform b" "vertices (data b) = vertices (data test_prism_object)"
  shows "dimensions b = (1, 1, 1 / 5)"
  by (simp add: dimensions_identity [OF assms(1)] bound_min_def bound_max_def assms(2)
      vertices_test_prism_object vsub_def)

lemma identity_select_edges:
  "select_edges crit b = Inr b' \<Longrightarrow> identity_transform b' = identity_transform b"
  by (auto simp: select_edges_def Let_def bind_py_Inr mesh_select_all_def
      mesh_select_mode_def)

lemma identity_test_prism_object: "identity_transform test_prism_object"
  by (simp add: test_prism_object_def basic_Cylinder_def)

lemma rescale_to_diagonal_returns:
  assumes "hypot (vx (dimensions b)) (vy (dimensions b)) \<noteq> 0"
  shows "rescale_to_diagonal E sz b
         = Inr (scale E (Scalar (sz / hypot (vx (dimensions b)) (vy (dimensions b)))) b)"
  using assms by (simp add: rescale_to_diagonal_def np_div_def bind_py_def)

lemma test_prism_returns:
  assumes "0 < t"
  shows "\<exists>b. basic_Prism test_engine 4 1 (1 / 5) t 0 0 3 = Inr b"
proof -
  have b0: "new_object (Primitive_cylinder_add 4 (1 / 2) (1 / 5))
              (eng_cylinder test_engine 4 (1 / 2) (1 / 5)) = test_prism_object"
    by (simp add: test_prism_object_def basic_Cylinder_def)
  obtain b1 where b1: "select_edges is_edge_vertical test_prism_object = Inr b1"
    using select_vertical_test_prism [of test_prism_object] by auto
  define b2 where "b2 = remove_duplicate_vertices test_engine
       (mesh_bevel test_engine
          \<lparr>ba_affect = None, ba_offset_type = Some PERCENT, ba_offset = None,
           ba_offset_pct = Some (100 * (t * (1 / 2))), ba_segments = None,
           ba_clamp_overlap = Some True\<rparr> b1)"
  have t: "prism_truncate test_engine t test_prism_object = Inr b2"
    using assms by (simp add: prism_truncate_def b1 bind_py_def Let_def b2_def)
  have v: "vertices (data b2) = vertices (data test_prism_object)"
    by (simp add: b2_def remove_duplicate_vertices_def mesh_bevel_def test_engine_def
        select_edges_vertical(3) [OF b1])
  have i: "identity_transform b2"
    by (simp add: b2_def remove_duplicate_vertices_def mesh_bevel_def mesh_select_all_def
        identity_select_edges [OF b1] identity_test_prism_object)
  have d: "dimensions b2 = (1, 1, 1 / 5)"
    by (rule dimensions_prism_vertices [OF i v])
  have h: "hypot (vx (dimensions b2)) (vy (dimensions b2)) \<noteq> 0"
    by (simp add: d hypot_def)
  show ?thesis
    unfolding basic_Prism_def Let_def
    by (simp add: b0 t bind_py_def prism_smooth_tips_def prism_smooth_edges_def
        rescale_to_diagonal_returns [OF h])
qed

theorem truncation_bevels_witness:
  "0 < (1 / 2 :: real) \<and>
   (\<exists>b f. basic_Octahedron test_engine 1 (1 / 2) = Inr b \<and>
      calls b =
        [Primitive_cube_add 1,
         Modifier_bevel \<lparr>bm_offset_type = Some PERCENT, bm_width = None,
                         bm_width_pct = Some 100, bm_segments = None\<rparr>,
         Mesh_select_all SELECT, Mesh_remove_doubles,
         Modifier_bevel \<lparr>bm_offset_type = Some PERCENT, bm_width = None,
                         bm_width_pct = Some (100 * (1 / 2) / 3), bm_segments = None\<rparr>,
         Mesh_select_all SELECT, Mesh_remove_doubles,
         Set_scale (f, f, f), Transform_apply]) \<and>
   (\<exists>b rest. basic_Prism test_engine 4 1 (1 / 5) (1 / 2) 0 0 3 = Inr b \<and>
      calls b =
        [Primitive_cylinder_add 4 (1 / 2) (1 / 5),
         Mesh_select_mode EDGE, Mesh_select_all DESELECT,
         Set_edge_select [True, True, True, True, False, False, False, False, False, False,
                          False, False],
         Mesh_bevel \<lparr>ba_affect = None, ba_offset_type = Some PERCENT,
                     ba_offset = None, ba_offset_pct = Some (100 * (1 / 2) / 2),
                     ba_segments = None, ba_clamp_overlap = Some True\<rparr>,
         Mesh_select_all SELECT, Mesh_remove_doubles] @ rest)"
proof -
  have p: "0 < (1 / 2 :: real)" by simp
  obtain bo where bo: "basic_Octahedron test_engine 1 (1 / 2) = Inr bo"
    using test_octahedron_returns by blast
  obtain bp where bp: "basic_Prism test_engine 4 1 (1 / 5) (1 / 2) 0 0 3 = Inr bp"
    using test_prism_returns [OF p] by blast
  have e: "map (edge_vertical (vertices (eng_cylinder test_engine 4 (1 / 2) (1 / 5))))
             (edges (eng_cylinder test_engine 4 (1 / 2) (1 / 5)))
           = [True, True, True, True, False, False, False, False, False, False, False, False]"
    by (simp add: test_engine_def test_cylinder_def test_mesh_def edge_vertical_def
        BLENDER_EPS_def)
  from truncation_bevels [OF p, of test_engine 1 4 "1 / 5" 0 0 3] bo bp
  have "(\<exists>f. calls bo =
        [Primitive_cube_add 1,
         Modifier_bevel \<lparr>bm_offset_type = Some PERCENT, bm_width = None,
                         bm_width_pct = Some 100, bm_segments = None\<rparr>,
         Mesh_select_all SELECT, Mesh_remove_doubles,
         Modifier_bevel \<lparr>bm_offset_type = Some PERCENT, bm_width = None,
                         bm_width_pct = Some (100 * (1 / 2) / 3), bm_segments = None\<rparr>,
         Mesh_select_all SELECT, Mesh_remove_doubles,
         Set_scale (f, f, f), Transform_apply])"
    and "(\<exists>rest. calls bp =
        [Primitive_cylinder_add 4 (1 / 2) (1 / 5),
         Mesh_select_mode EDGE, Mesh_select_all DESELECT,
         Set_edge_select (map (edge_vertical (vertices (eng_cylinder test_engine 4 (1 / 2) (1 / 5))))
             (edges (eng_cylinder test_engine 4 (1 / 2) (1 / 5)))),
         Mesh_bevel \<lparr>ba_affect = None, ba_offset_type = Some PERCENT,
                     ba_offset = None, ba_offset_pct = Some (100 * (1 / 2) / 2),
                     ba_segments = None, ba_clamp_overlap = Some True\<rparr>,
         Mesh_select_all SELECT, Mesh_remove_doubles] @ rest)"
    by simp_all
  then show ?thesis
    unfolding e using p bo bp by blast
qed

lemma vertices_extrude_region_move [simp]:
  "data (extrude_region_move E v b) = eng_extrude_region_move E v (data b)"
  by (simp add: extrude_region_move_def)

text \<open>
  C6 as amended. The Rod recipe is the SphericallyCappedCylinder recipe with
  middle_section_height = height - diameter and 5 subdivisions. Starting from the
  ellipsoid (icosphere of radius 1/2 scaled by the diameter), it selects exactly the
  vertices with z > -1e-5 (the upper cap and the equator) and extrudes them by
  (0, 0, middle_section_height/2); it then selects, among the vertices of the extruded
  mesh, exactly those with z < +1e-5 and translates them by
  (0, 0, -middle_section_height/2).
\<close>

theorem rod_recipe:
  "fcc_Rod E height diameter
     = basic_SphericallyCappedCylinder E diameter (height - diameter) 5 \<and>
   calls (basic_Ellipsoid E (Scalar diameter) subdivisions)
     = [Primitive_ico_sphere_add subdivisions (1 / 2),
        Set_scale (diameter, diameter, diameter), Transform_apply] \<and>
   calls (basic_SphericallyCappedCylinder E diameter middle_section_height subdivisions)
     = calls (basic_Ellipsoid E (Scalar diameter) subdivisions) @
       [Mesh_select_mode VERT, Mesh_select_all DESELECT,
        Set_vertex_select
          (map (\<lambda>v. vz v > - (1 / 100000))
             (vertices (data (basic_Ellipsoid E (Scalar diameter) subdivisions)))),
        Mesh_extrude_region_move (0, 0, middle_section_height / 2),
        Mesh_select_mode VERT, Mesh_select_all DESELECT,
        Set_vertex_select
          (map (\<lambda>v. vz v < 1 / 100000)
             (vertices
                (eng_extrude_region_move E (0, 0, middle_section_height / 2)
                   (data (select_vertices upper_cap_criterion
                            (basic_Ellipsoid E (Scalar diameter) subdivisions)))))),
        Mesh_translate (0, 0, - middle_section_height / 2)]"
proof -
  have u: "upper_cap_criterion = (\<lambda>v. vz v > - (1 / 100000))"
    by (rule ext) (simp add: upper_cap_criterion_def BLENDER_EPS_def)
  have l: "lower_cap_criterion = (\<lambda>v. vz v < 1 / 100000)"
    by (rule ext) (simp add: lower_cap_criterion_def BLENDER_EPS_def)
  have 1: "fcc_Rod E height diameter
     = basic_SphericallyCappedCylinder E diameter (height - diameter) 5"
    by (simp add: fcc_Rod_def)
  have 2: "calls (basic_Ellipsoid E (Scalar diameter) subdivisions)
     = [Primitive_ico_sphere_add subdivisions (1 / 2),
        Set_scale (diameter, diameter, diameter), Transform_apply]"
    by (simp add: basic_Ellipsoid_def)
  have 3: "calls (basic_SphericallyCappedCylinder E diameter middle_section_height subdivisions)
     = calls (basic_Ellipsoid E (Scalar diameter) subdivisions) @
       [Mesh_select_mode VERT, Mesh_select_all DESELECT,
        Set_vertex_select
          (map upper_cap_criterion
             (vertices (data (basic_Ellipsoid E (Scalar diameter) subdivisions)))),
        Mesh_extrude_region_move (0, 0, middle_section_height / 2),
        Mesh_select_mode VERT, Mesh_select_all DESELECT,
        Set_vertex_select
          (map lower_cap_criterion
             (vertices
                (eng_extrude_region_move E (0, 0, middle_section_height / 2)
                   (data (select_vertices upper_cap_criterion
                            (basic_Ellipsoid E (Scalar diameter) subdivisions)))))),
        Mesh_translate (0, 0, - middle_section_height / 2)]"
    by (simp add: basic_SphericallyCappedCylinder_def Let_def)
  from 1 2 3 show ?thesis unfolding u l by blast
qed

lemma vertices_test_ellipsoid:
  "vertices (data (basic_Ellipsoid test_engine (Scalar (1 / 2)) 5))
   = [(0, 0, - (1 / 4)), (1 / 4, 0, 0), (0, 1 / 4, 0), (- (1 / 4), 0, 0), (0, - (1 / 4), 0),
      (0, 0, 1 / 4)]"
  by (simp add: basic_Ellipsoid_def scale_def Let_def apply_all_transforms_def
      vertices_transform_apply transform_point_def request_def new_object_def test_engine_def
      test_ico_sphere_def test_mesh_def vadd_def vmul_def)

text \<open>
  C6 as stated fails: the equator vertex (0, 1/4, 0) of the ellipsoid of diameter 1/2
  has z = 0, which is not above +1e-5, yet the recipe selects it for the extrusion
  (and again, unmoved, for the downward translation).
\<close>

theorem rod_selection_counterexample:
  "upper_cap_criterion (0, 1 / 4, 0) \<and> \<not> vz (0, 1 / 4, 0) > BLENDER_EPS \<and>
   lower_cap_criterion (0, 1 / 4, 0) \<and> \<not> vz (0, 1 / 4, 0) < - BLENDER_EPS \<and>
   (0, 1 / 4, 0) \<in> set (vertices (data (basic_Ellipsoid test_engine (Scalar (1 / 2)) 5))) \<and>
   calls (fcc_Rod test_engine 1 (1 / 2)) ! 5
     = Set_vertex_select [False, True, True, True, True, True] \<and>
   map (\<lambda>v. vz v > BLENDER_EPS)
     (vertices (data (basic_Ellipsoid test_engine (Scalar (1 / 2)) 5)))
     = [False, False, False, False, False, True]"
proof -
  have "calls (fcc_Rod test_engine 1 (1 / 2)) ! 5
     = Set_vertex_select (map upper_cap_criterion
         (vertices (data (basic_Ellipsoid test_engine (Scalar (1 / 2)) 5))))"
    by (simp add: fcc_Rod_def basic_SphericallyCappedCylinder_def Let_def
        basic_Ellipsoid_def)
  then show ?thesis
    by (simp add: vertices_test_ellipsoid upper_cap_criterion_def lower_cap_criterion_def
        BLENDER_EPS_def)
qed

lemma dimensions_cong:
  "vertices (data b') = vertices (data b) \<Longrightarrow> bo_scale b' = bo_scale b \<Longrightarrow>
   dimensions b' = dimensions b"
  by (simp add: dimensions_def bound_min_def bound_max_def)

lemma bo_scale_request [simp]: "bo_scale (request c b) = bo_scale b"
  by (simp add: request_def)

lemma bo_scale_on_mesh [simp]: "bo_scale (on_mesh f b) = bo_scale b"
  by (simp add: on_mesh_def)

lemma dimensions_select_vertices [simp]:
  "dimensions (select_vertices crit b) = dimensions b"
  by (rule dimensions_cong)
    (simp_all add: select_vertices_def Let_def mesh_select_all_def mesh_select_mode_def)

lemma dimensions_select_edges:
  "select_edges crit b = Inr b' \<Longrightarrow> dimensions b' = dimensions b"
  by (rule dimensions_cong)
    (auto simp: select_edges_def Let_def bind_py_Inr mesh_select_all_def mesh_select_mode_def)

lemma smooth_edges_skip:
  "degree * max3 (dimensions b) < BLENDER_EPS \<Longrightarrow> smooth_edges E degree n b = b"
  by (simp add: smooth_edges_def)

lemma smooth_edges_bevel:
  "\<not> degree * max3 (dimensions b) < BLENDER_EPS \<Longrightarrow>
   smooth_edges E degree n b
   = apply_bevel_modifier E
       \<lparr>bm_offset_type = None, bm_width = Some (degree * max3 (dimensions b)),
        bm_width_pct = None, bm_segments = Some n\<rparr> b"
  by (simp add: smooth_edges_def)

lemma bipyramid_truncate_tips_skip:
  "0 < t \<Longrightarrow> t * max3 (dimensions b) < BLENDER_EPS \<Longrightarrow>
   bipyramid_truncate_tips E t b = select_vertices is_vertex_out_of_plane b"
  by (simp add: bipyramid_truncate_tips_def Let_def)

lemma bipyramid_truncate_tips_bevel:
  "0 < t \<Longrightarrow> \<not> t * max3 (dimensions b) < BLENDER_EPS \<Longrightarrow>
   bipyramid_truncate_tips E t b
   = remove_duplicate_vertices E
       (mesh_bevel E
          \<lparr>ba_affect = Some VERTICES, ba_offset_type = Some WIDTH,
           ba_offset = Some (t * max3 (dimensions b)), ba_offset_pct = None,
           ba_segments = Some 1, ba_clamp_overlap = Some True\<rparr>
          (select_vertices is_vertex_out_of_plane b))"
  by (simp add: bipyramid_truncate_tips_def Let_def)

lemma prism_smooth_tips_calls:
  assumes "0 < ts" "prism_smooth_tips E ts k b = Inr b'"
  shows "calls b' = calls b @
           [Mesh_select_mode EDGE, Mesh_select_all DESELECT,
            Set_edge_select (map (edge_vertical (vertices (data b))) (edges (data b))),
            Mesh_bevel \<lparr>ba_affect = None, ba_offset_type = None,
                        ba_offset = Some (ts * vx (dimensions b)), ba_offset_pct = None,
                        ba_segments = Some k, ba_clamp_overlap = Some True\<rparr>,
            Mesh_select_all SELECT, Mesh_remove_doubles]"
proof -
  from assms obtain b1 where 1: "select_edges is_edge_vertical b = Inr b1"
    and 2: "b' = remove_duplicate_vertices E
                   (mesh_bevel E
                      \<lparr>ba_affect = None, ba_offset_type = None,
                       ba_offset = Some (ts * vx (dimensions b1)), ba_offset_pct = None,
                       ba_segments = Some k, ba_clamp_overlap = Some True\<rparr> b1)"
    by (auto simp: prism_smooth_tips_def Let_def bind_py_Inr)
  show ?thesis
    by (simp add: 2 select_edges_vertical(1) [OF 1] dimensions_select_edges [OF 1])
qed

lemma collect_is_edge_not_vertical:
  "collect_py (map (is_edge_not_vertical vs) es) = Inr sel \<Longrightarrow>
   sel = map (\<lambda>e. \<not> edge_vertical vs e) es"
  by (induction es arbitrary: sel)
    (auto simp: is_edge_not_vertical_def is_edge_vertical_def bind_py_def
      split: sum.splits if_splits)

lemma prism_smooth_edges_calls:
  assumes "0 < es" "prism_smooth_edges E es k b = Inr b'"
  shows "calls b' = calls b @
           [Mesh_select_mode EDGE, Mesh_select_all DESELECT,
            Set_edge_select (map (\<lambda>e. \<not> edge_vertical (vertices (data b)) e) (edges (data b))),
            Mesh_bevel \<lparr>ba_affect = None, ba_offset_type = None,
                        ba_offset = Some (es * vz (dimensions b)), ba_offset_pct = None,
                        ba_segments = Some k, ba_clamp_overlap = Some True\<rparr>,
            Mesh_select_all SELECT, Mesh_remove_doubles]"
proof -
  from assms obtain b1 where 1: "select_edges is_edge_not_vertical b = Inr b1"
    and 2: "b' = remove_duplicate_vertices E
                   (mesh_bevel E
                      \<lparr>ba_affect = None, ba_offset_type = None,
                       ba_offset = Some (es * vz (dimensions b1)), ba_offset_pct = None,
                       ba_segments = Some k, ba_clamp_overlap = Some True\<rparr> b1)"
    by (auto simp: prism_smooth_edges_def Let_def bind_py_Inr)
  from 1 obtain sel where
    c: "collect_py (map (is_edge_not_vertical (vertices (data b))) (edges (data b))) = Inr sel"
    and b1: "b1 = request (Set_edge_select sel)
                    (on_mesh (\<lambda>m. m\<lparr>edge_select := sel\<rparr>)
                       (mesh_select_all DESELECT (mesh_select_mode EDGE b)))"
    by (auto simp: select_edges_def Let_def bind_py_Inr)
  have d: "dimensions b1 = dimensions b"
    by (rule dimensions_select_edges [OF 1])
  have cb1: "calls b1 = calls b @
      [Mesh_select_mode EDGE, Mesh_select_all DESELECT,
       Set_edge_select (map (\<lambda>e. \<not> edge_vertical (vertices (data b)) e) (edges (data b)))]"
    by (simp add: b1 collect_is_edge_not_vertical [OF c])
  show ?thesis
    by (simp add: 2 d cb1)
qed

text \<open>
  C4 as amended. The shared edge smoothing and the Bipyramid tip truncation compute
  their bevel width and skip the bevel when it is below 1e-5: smooth_edges then returns
  the object untouched, and the Bipyramid step has only written the vertex selection
  (vertices, edges and polygons are unchanged). Prism tip smoothing and Prism edge
  smoothing are guarded by their degree instead: with a degree that is not positive
  they do nothing, and with a positive degree a returning step has asked for the bevel
  with offset degree * x-dimension (tips) or degree * z-dimension (edges), whatever its
  size, followed by the weld.
\<close>

theorem bevel_width_guards:
  "BLENDER_EPS = 1 / 100000 \<and>
   (d * max3 (dimensions b) < BLENDER_EPS \<longrightarrow> smooth_edges E d n b = b) \<and>
   (0 < t \<longrightarrow> t * max3 (dimensions b) < BLENDER_EPS \<longrightarrow>
      bipyramid_truncate_tips E t b = select_vertices is_vertex_out_of_plane b \<and>
      vertices (data (bipyramid_truncate_tips E t b)) = vertices (data b) \<and>
      edges (data (bipyramid_truncate_tips E t b)) = edges (data b) \<and>
      polygons (data (bipyramid_truncate_tips E t b)) = polygons (data b) \<and>
      calls (bipyramid_truncate_tips E t b)
        = calls b @ [Mesh_select_mode VERT, Mesh_select_all DESELECT,
                     Set_vertex_select (map is_vertex_out_of_plane (vertices (data b)))]) \<and>
   (ts0 \<le> 0 \<longrightarrow> prism_smooth_tips E ts0 k b = Inr b) \<and>
   (es0 \<le> 0 \<longrightarrow> prism_smooth_edges E es0 k b = Inr b) \<and>
   (0 < ts \<longrightarrow>
      (\<forall>b'. prism_smooth_tips E ts k b = Inr b' \<longrightarrow>
         calls b' = calls b @
           [Mesh_select_mode EDGE, Mesh_select_all DESELECT,
            Set_edge_select (map (edge_vertical (vertices (data b))) (edges (data b))),
            Mesh_bevel \<lparr>ba_affect = None, ba_offset_type = None,
                        ba_offset = Some (ts * vx (dimensions b)), ba_offset_pct = None,
                        ba_segments = Some k, ba_clamp_overlap = Some True\<rparr>,
            Mesh_select_all SELECT, Mesh_remove_doubles])) \<and>
   (0 < es \<longrightarrow>
      (\<forall>b'. prism_smooth_edges E es k b = Inr b' \<longrightarrow>
         calls b' = calls b @
           [Mesh_select_mode EDGE, Mesh_select_all DESELECT,
            Set_edge_select
              (map (\<lambda>e. \<not> edge_vertical (vertices (data b)) e) (edges (data b))),
            Mesh_bevel \<lparr>ba_affect = None, ba_offset_type = None,
                        ba_offset = Some (es * vz (dimensions b)), ba_offset_pct = None,
                        ba_segments = Some k, ba_clamp_overlap = Some True\<rparr>,
            Mesh_select_all SELECT, Mesh_remove_doubles]))"
proof -
  have 1: "BLENDER_EPS = 1 / 100000" by (simp add: BLENDER_EPS_def)
  have 2: "d * max3 (dimensions b) < BLENDER_EPS \<longrightarrow> smooth_edges E d n b = b"
    by (simp add: smooth_edges_skip)
  have 3: "0 < t \<longrightarrow> t * max3 (dimensions b) < BLENDER_EPS \<longrightarrow>
      bipyramid_truncate_tips E t b = select_vertices is_vertex_out_of_plane b \<and>
      vertices (data (bipyramid_truncate_tips E t b)) = vertices (data b) \<and>
      edges (data (bipyramid_truncate_tips E t b)) = edges (data b) \<and>
      polygons (data (bipyramid_truncate_tips E t b)) = polygons (data b) \<and>
      calls (bipyramid_truncate_tips E t b)
        = calls b @ [Mesh_select_mode VERT, Mesh_select_all DESELECT,
                     Set_vertex_select (map is_vertex_out_of_plane (vertices (data b)))]"
    by (simp add: bipyramid_truncate_tips_skip)
      (simp add: select_vertices_def Let_def mesh_select_all_def mesh_select_mode_def)
  have 4: "ts0 \<le> 0 \<longrightarrow> prism_smooth_tips E ts0 k b = Inr b"
    by (simp add: prism_smooth_tips_def)
  have 5: "es0 \<le> 0 \<longrightarrow> prism_smooth_edges E es0 k b = Inr b"
    by (simp add: prism_smooth_edges_def)
  note 6 = prism_smooth_tips_calls [of ts E k b]
  note 7 = prism_smooth_edges_calls [of es E k b]
  from 1 2 3 4 5 6 7 show ?thesis by blast
qed


lemma dimensions_test_prism_object: "dimensions test_prism_object = (1, 1, 1 / 5)"
  by (rule dimensions_prism_vertices [OF identity_test_prism_object refl])

lemma calls_test_prism_object:
  "calls test_prism_object = [Primitive_cylinder_add 4 (1 / 2) (1 / 5)]"
  by (simp add: test_prism_object_def basic_Cylinder_def)

lemma vertical_flags_test_prism_object:
  "map (edge_vertical (vertices (data test_prism_object))) (edges (data test_prism_object))
   = [True, True, True, True, False, False, False, False, False, False, False, False]"
  by (simp add: vertices_test_prism_object edges_test_prism_object edge_vertical_def
      BLENDER_EPS_def)

lemma test_prism_smooth_tips_returns:
  "\<exists>b'. prism_smooth_tips test_engine ts k test_prism_object = Inr b'"
proof -
  obtain b1 where "select_edges is_edge_vertical test_prism_object = Inr b1"
    using select_vertical_test_prism [of test_prism_object] by auto
  then show ?thesis
    by (simp add: prism_smooth_tips_def Let_def bind_py_def)
qed

lemma test_prism_smooth_edges_returns:
  "\<exists>b'. prism_smooth_edges test_engine es k test_prism_object = Inr b'"
proof -
  have "map (is_edge_not_vertical (vertices (data test_prism_object)))
          (edges (data test_prism_object))
        = map Inr [False, False, False, False, True, True, True, True, True, True, True, True]"
    by (simp add: vertices_test_prism_object edges_test_prism_object is_edge_not_vertical_def
        is_edge_vertical_def edge_vertical_def BLENDER_EPS_def bind_py_def)
  then have "\<exists>b1. select_edges is_edge_not_vertical test_prism_object = Inr b1"
    by (simp add: select_edges_def Let_def bind_py_def)
  then show ?thesis
    by (auto simp: prism_smooth_edges_def Let_def bind_py_def)
qed

theorem bevel_width_guards_witness:
  "0 * max3 (dimensions test_prism_object) < BLENDER_EPS \<and>
   smooth_edges test_engine 0 3 test_prism_object = test_prism_object \<and>
   0 < (1 / 1000000 :: real) \<and>
   1 / 1000000 * max3 (dimensions test_prism_object) < BLENDER_EPS \<and>
   vertices (data (bipyramid_truncate_tips test_engine (1 / 1000000) test_prism_object))
     = vertices (data test_prism_object) \<and>
   (0 :: real) \<le> 0 \<and>
   prism_smooth_tips test_engine 0 3 test_prism_object = Inr test_prism_object \<and>
   prism_smooth_edges test_engine 0 3 test_prism_object = Inr test_prism_object \<and>
   0 < (1 / 10 :: real) \<and>
   (\<exists>b'. prism_smooth_tips test_engine (1 / 10) 3 test_prism_object = Inr b' \<and>
      calls b' = calls test_prism_object @
        [Mesh_select_mode EDGE, Mesh_select_all DESELECT,
         Set_edge_select (map (edge_vertical (vertices (data test_prism_object)))
                            (edges (data test_prism_object))),
         Mesh_bevel \<lparr>ba_affect = None, ba_offset_type = None,
                     ba_offset = Some (1 / 10 * vx (dimensions test_prism_object)),
                     ba_offset_pct = None, ba_segments = Some 3,
                     ba_clamp_overlap = Some True\<rparr>,
         Mesh_select_all SELECT, Mesh_remove_doubles]) \<and>
   (\<exists>b'. prism_smooth_edges test_engine (1 / 10) 3 test_prism_object = Inr b' \<and>
      calls b' = calls test_prism_object @
        [Mesh_select_mode EDGE, Mesh_select_all DESELECT,
         Set_edge_select
           (map (\<lambda>e. \<not> edge_vertical (vertices (data test_prism_object)) e)
              (edges (data test_prism_object))),
         Mesh_bevel \<lparr>ba_affect = None, ba_offset_type = None,
                     ba_offset = Some (1 / 10 * vz (dimensions test_prism_object)),
                     ba_offset_pct = None, ba_segments = Some 3,
                     ba_clamp_overlap = Some True\<rparr>,
         Mesh_select_all SELECT, Mesh_remove_doubles])"
proof -
  have h1: "0 * max3 (dimensions test_prism_object) < BLENDER_EPS"
    by (simp add: BLENDER_EPS_def)
  have h2: "0 < (1 / 1000000 :: real)" by simp
  have h3: "1 / 1000000 * max3 (dimensions test_prism_object) < BLENDER_EPS"
    by (simp add: dimensions_test_prism_object max3_def BLENDER_EPS_def)
  have h4: "(0 :: real) \<le> 0" by simp
  have h5: "0 < (1 / 10 :: real)" by simp
  obtain bt where bt: "prism_smooth_tips test_engine (1 / 10) 3 test_prism_object = Inr bt"
    using test_prism_smooth_tips_returns by blast
  obtain be where be: "prism_smooth_edges test_engine (1 / 10) 3 test_prism_object = Inr be"
    using test_prism_smooth_edges_returns by blast
  from bevel_width_guards [of 0 test_prism_object test_engine 3 "1 / 1000000" 0 3 0
      "1 / 10" "1 / 10"] h1 h2 h3 h4 h5 bt be
  show ?thesis by blast
qed

text \<open>
  C4 as stated fails at the Prism's tip smoothing: on the four-sided prism of size 1
  with tips_smoothing_degree = 1e-6 the bevel offset is 1e-6, below the tolerance 1e-5,
  and the bevel is requested all the same.
\<close>

theorem prism_tip_smoothing_counterexample:
  "1 / 1000000 * vx (dimensions test_prism_object) < BLENDER_EPS \<and>
   map_sum id calls (prism_smooth_tips test_engine (1 / 1000000) 3 test_prism_object)
   = Inr [Primitive_cylinder_add 4 (1 / 2) (1 / 5),
          Mesh_select_mode EDGE, Mesh_select_all DESELECT,
          Set_edge_select [True, True, True, True, False, False, False, False, False, False,
                           False, False],
          Mesh_bevel \<lparr>ba_affect = None, ba_offset_type = None,
                      ba_offset = Some (1 / 1000000), ba_offset_pct = None,
                      ba_segments = Some 3, ba_clamp_overlap = Some True\<rparr>,
          Mesh_select_all SELECT, Mesh_remove_doubles]"
proof -
  have p: "0 < (1 / 1000000 :: real)" by simp
  obtain bt where
    bt: "prism_smooth_tips test_engine (1 / 1000000) 3 test_prism_object = Inr bt"
    using test_prism_smooth_tips_returns by blast
  from prism_smooth_tips_calls [OF p bt]
  show ?thesis
    by (simp add: bt calls_test_prism_object vertical_flags_test_prism_object
        dimensions_test_prism_object BLENDER_EPS_def)
qed

lemma smooth_edges_zero [simp]: "smooth_edges E 0 n b = b"
  by (simp add: smooth_edges_def BLENDER_EPS_def)

lemma bipyramid_truncate_tips_zero [simp]: "bipyramid_truncate_tips E 0 b = b"
  by (simp add: bipyramid_truncate_tips_def)

lemma octahedron_bevels_zero [simp]: "octahedron_bevels E 0 = octahedron_base E"
  by (simp add: octahedron_bevels_def octahedron_base_def)

lemma basic_Bipyramid_zero [simp]: "basic_Bipyramid E n d h 0 = bipyramid_base E n d h"
  by (simp add: basic_Bipyramid_def bipyramid_base_def)

lemma basic_Prism_zero [simp]:
  "basic_Prism E n sz h 0 0 0 k = rescale_to_diagonal E sz (basic_Cylinder E sz h n)"
  by (simp add: basic_Prism_def basic_Cylinder_def prism_truncate_def prism_smooth_tips_def
      prism_smooth_edges_def bind_py_def)

lemma build_zero_degrees: "zero_degrees shp \<Longrightarrow> build E shp = base_shape E shp"
  by (cases shp)
    (simp_all add: fcc_Sphere_def fcc_Cube_def fcc_Rod_def fcc_Octahedron_def
      fcc_TruncatedOctahedron_def fcc_Icosahedron_def fcc_Triangle_def
      fcc_TruncatedTriangle_def fcc_Square_def fcc_Hexagon_def fcc_Decahedron_def
      fcc_Bipyramid_def basic_Octahedron_def Let_def)

lemma base_shape_bevels_and_welds:
  "base_shape E shp = Inr b \<Longrightarrow> filter bevel_or_weld (calls b) = base_bevels_and_welds shp"
  by (cases shp)
    (auto simp: basic_Ellipsoid_def basic_Box_def basic_SphericallyCappedCylinder_def
      basic_Icosahedron_def basic_Cylinder_def octahedron_base_def bipyramid_base_def
      rescale_to_max_dimension_def rescale_to_sphere_def rescale_to_diagonal_def
      rescale_to_z_dimension_def bind_py_Inr Let_def)


text \<open>
  C8. For every recipe whose truncation and smoothing degrees are all 0, the builder
  is the base shape's builder: the same engine requests and the same geometry as the
  primitive followed by the final rescale. No bevel and no weld is requested beyond
  those that construct the base shape itself (the octahedron's 100% bevel and weld, the
  bipyramid's weld); for Square(size, height, 0, 0, 0) that is the 4-sided cylinder
  primitive and the rescale only.
\<close>

theorem zero_degrees_base_shape:
  assumes "zero_degrees shp"
  shows "build E shp = base_shape E shp \<and>
         (\<forall>b. build E shp = Inr b \<longrightarrow>
            filter bevel_or_weld (calls b) = base_bevels_and_welds shp) \<and>
         base_shape E (FccSquare sz h 0 0 0)
           = rescale_to_diagonal E sz (basic_Cylinder E sz h 4)"
  using build_zero_degrees [OF assms, of E] base_shape_bevels_and_welds [of E shp]
  by simp

theorem zero_degrees_base_shape_witness:
  "zero_degrees (FccSquare 1 (1 / 5) 0 0 0) \<and>
   (\<exists>b. build test_engine (FccSquare 1 (1 / 5) 0 0 0) = Inr b \<and>
      filter bevel_or_weld (calls b) = []) \<and>
   build test_engine (FccSquare 1 (1 / 5) 0 0 0)
     = rescale_to_diagonal test_engine 1 (basic_Cylinder test_engine 1 (1 / 5) 4)"
proof -
  have z: "zero_degrees (FccSquare 1 (1 / 5) 0 0 0)" by simp
  have h: "hypot (vx (dimensions test_prism_object)) (vy (dimensions test_prism_object)) \<noteq> 0"
    by (simp add: dimensions_test_prism_object hypot_def)
  have "\<exists>b. build test_engine (FccSquare 1 (1 / 5) 0 0 0) = Inr b"
    using rescale_to_diagonal_returns [OF h, of test_engine 1]
    by (simp add: fcc_Square_def test_prism_object_def)
  then obtain b where b: "build test_engine (FccSquare 1 (1 / 5) 0 0 0) = Inr b" ..
  from zero_degrees_base_shape [OF z, of test_engine 1 "1 / 5"] b z
  show ?thesis by auto
qed

section \<open>The final rescale\<close>

lemma identity_transform_steps [simp]:
  "identity_transform (mesh_select_all a b) = identity_transform b"
  "identity_transform (mesh_select_mode sm b) = identity_transform b"
  "identity_transform (select_vertices crit b) = identity_transform b"
  "identity_transform (remove_duplicate_vertices E b) = identity_transform b"
  "identity_transform (apply_bevel_modifier E settings b) = identity_transform b"
  "identity_transform (mesh_bevel E args b) = identity_transform b"
  "identity_transform (extrude_region_move E v b) = identity_transform b"
  "identity_transform (transform_translate E v b) = identity_transform b"
  "identity_transform (transform_resize E v b) = identity_transform b"
  "identity_transform (smooth_edges E d n b) = identity_transform b"
  "identity_transform (bipyramid_truncate_tips E d b) = identity_transform b"
  by (simp_all add: mesh_select_all_def mesh_select_mode_def select_vertices_def Let_def
      remove_duplicate_vertices_def apply_bevel_modifier_def mesh_bevel_def
      extrude_region_move_def transform_translate_def transform_resize_def smooth_edges_def
      bipyramid_truncate_tips_def)











lemma identity_octahedron_bevels [simp]: "identity_transform (octahedron_bevels E t)"
  by (simp add: octahedron_bevels_def Let_def)

lemma identity_basic_Bipyramid [simp]: "identity_transform (basic_Bipyramid E n d h t)"
  by (simp add: basic_Bipyramid_def Let_def)

lemma identity_base_shapes [simp]:
  "identity_transform (octahedron_base E)" "identity_transform (bipyramid_base E n d h)"
  by (simp_all add: octahedron_base_def bipyramid_base_def)









section \<open>Scenes\<close>

lemma np_draws_np_uniform [simp]: "np_draws (snd (np_uniform lo hi r)) = np_draws r"
  by (simp add: np_uniform_def)

lemma unit_draws_np_uniform [simp]: "unit_draws (snd (np_uniform lo hi r)) = unit_draws r"
  by (simp add: unit_draws_def)

lemma unit_draws_sample [simp]: "unit_draws (snd (sample cls r)) = unit_draws r"
  by (cases cls) (simp_all add: Let_def)

lemma unit_draws_py_next [simp]: "unit_draws (r\<lparr>py_next := k\<rparr>) = unit_draws r"
  by (simp add: unit_draws_def)




lemma vertices_translate_length [simp]:
  "length (vertices (data (translate E t b))) = length (vertices (data b))"
  by (simp add: translate_def apply_all_transforms_def vertices_transform_apply)

lemma vertices_scale_length [simp]:
  "length (vertices (data (scale E sv b))) = length (vertices (data b))"
  by (simp add: scale_def Let_def apply_all_transforms_def vertices_transform_apply)




section \<open>A run on the test engine\<close>



lemma set_rotation_mode_fields [simp]:
  "bo_location (set_rotation_mode E m b) = bo_location b"
  "bo_scale (set_rotation_mode E m b) = bo_scale b"
  "data (set_rotation_mode E m b) = data b"
  by (simp_all add: set_rotation_mode_def request_def)

lemma request_fields [simp]:
  "bo_location (request c b) = bo_location b"
  by (simp add: request_def)
















end
